theory Spec2Isabelle
  imports Complex_Main "HOL-Library.Log_Nat"
begin

section \<open>JavaScript built-ins used by the sources\<close>

text \<open>
  The sources are TypeScript. The few built-in operations they rely on are modelled here
  after the ECMAScript definitions, on the value ranges the components work with:
  strings are ASCII byte strings, integers are exact (\<open>int\<close>), and a finite
  JavaScript number is the rational it denotes.
\<close>

subsection \<open>Truthiness\<close>

definition truthy_string :: "string \<Rightarrow> bool" where
  "truthy_string s = (s \<noteq> [])"

definition truthy_number :: "int \<Rightarrow> bool" where
  "truthy_number n = (n \<noteq> 0)"

text \<open>An optional string property: \<open>undefined\<close> and \<open>''\<close> are both falsy.\<close>

definition truthy_opt_string :: "string option \<Rightarrow> bool" where
  "truthy_opt_string v = (case v of None \<Rightarrow> False | Some s \<Rightarrow> truthy_string s)"

subsection \<open>Number.parseInt (radix argument absent)\<close>

definition isWhiteSpace :: "char \<Rightarrow> bool" where
  "isWhiteSpace c = (c = CHR '' '' \<or> c = CHR 0x09 \<or> c = CHR 0x0A \<or> c = CHR 0x0B
     \<or> c = CHR 0x0C \<or> c = CHR 0x0D)"

definition digitValue :: "char \<Rightarrow> nat option" where
  "digitValue c =
     (let n = (of_char c :: nat) in
      if 48 \<le> n \<and> n \<le> 57 then Some (n - 48)
      else if 97 \<le> n \<and> n \<le> 122 then Some (n - 87)
      else if 65 \<le> n \<and> n \<le> 90 then Some (n - 55)
      else None)"

text \<open>The longest prefix of the string made of digits of radix \<open>R\<close>, as digit values.\<close>

fun radixDigits :: "nat \<Rightarrow> string \<Rightarrow> nat list" where
  "radixDigits R [] = []"
| "radixDigits R (c # cs) =
     (case digitValue c of
        None \<Rightarrow> []
      | Some d \<Rightarrow> if d < R then d # radixDigits R cs else [])"

definition digitsToInt :: "nat \<Rightarrow> nat list \<Rightarrow> int" where
  "digitsToInt R ds = foldl (\<lambda>acc d. acc * int R + int d) 0 ds"

text \<open>
  \<open>parseInt\<close> skips leading white space, reads a sign, switches to radix 16 after a
  \<open>0x\<close> prefix, and reads the longest prefix of digits. \<open>None\<close> is \<open>NaN\<close>.
\<close>

definition parseInt :: "string \<Rightarrow> int option" where
  "parseInt inputString =
     (let S = dropWhile isWhiteSpace inputString;
          sign = (case S of c # _ \<Rightarrow> if c = CHR ''-'' then - 1 else 1 | [] \<Rightarrow> (1::int));
          S = (case S of c # cs \<Rightarrow> if c = CHR ''+'' \<or> c = CHR ''-'' then cs else S | [] \<Rightarrow> S);
          stripPrefix = (take 2 S = ''0x'' \<or> take 2 S = ''0X'');
          R = (if stripPrefix then 16 else 10);
          S = (if stripPrefix then drop 2 S else S);
          Z = radixDigits R S
      in if Z = [] then None else Some (sign * digitsToInt R Z))"

subsection \<open>String.prototype.replace with a string pattern\<close>

text \<open>The text before and after the first occurrence of the pattern, if there is one.\<close>

fun splitAtFirst :: "string \<Rightarrow> string \<Rightarrow> (string \<times> string) option" where
  "splitAtFirst pat [] = (if pat = [] then Some ([], []) else None)"
| "splitAtFirst pat (c # cs) =
     (if take (length pat) (c # cs) = pat then Some ([], drop (length pat) (c # cs))
      else (case splitAtFirst pat cs of
              None \<Rightarrow> None
            | Some (pre, post) \<Rightarrow> Some (c # pre, post)))"

text \<open>
  The replacement text is a template: \<open>$$\<close> stands for a dollar sign, \<open>$&\<close> for the
  matched text, \<open>$`\<close> for the text before the match and \<open>$'\<close> for the text after
  it. A string pattern has no capture groups, so every other \<open>$\<close> is literal.
\<close>

fun getSubstitution :: "string \<Rightarrow> string \<Rightarrow> string \<Rightarrow> string \<Rightarrow> string" where
  "getSubstitution matched preceding following (c1 # c2 # rest) =
     (if c1 = CHR ''$'' \<and> c2 = CHR ''$'' then CHR ''$'' # getSubstitution matched preceding following rest
      else if c1 = CHR ''$'' \<and> c2 = CHR ''&'' then matched @ getSubstitution matched preceding following rest
      else if c1 = CHR ''$'' \<and> c2 = CHR 0x60 then preceding @ getSubstitution matched preceding following rest
      else if c1 = CHR ''$'' \<and> c2 = CHR 0x27 then following @ getSubstitution matched preceding following rest
      else c1 # getSubstitution matched preceding following (c2 # rest))"
| "getSubstitution matched preceding following cs = cs"

definition js_replace :: "string \<Rightarrow> string \<Rightarrow> string \<Rightarrow> string" where
  "js_replace str pat replacement =
     (case splitAtFirst pat str of
        None \<Rightarrow> str
      | Some (pre, post) \<Rightarrow> pre @ getSubstitution pat pre post replacement @ post)"

subsection \<open>Number arithmetic and Number.prototype.toFixed\<close>

text \<open>
  A finite double is the rational it denotes; a whole number up to \<open>2^53\<close> in magnitude
  is a double. Division and multiplication compute the exact result and round it to 53
  significant bits, ties to even (\<open>fl\<close>); the exponent range is not bounded, so overflow
  and gradual underflow are outside the model.
\<close>

definition floor_log2 :: "rat \<Rightarrow> int" where
  "floor_log2 x =
     (let (p, q) = quotient_of x; d = bitlen p - bitlen q
      in if 2 powi d \<le> x then d else d - 1)"

definition round_half_even :: "rat \<Rightarrow> int" where
  "round_half_even y =
     (let f = \<lfloor>y\<rfloor>; r = y - of_int f
      in if r < 1 / 2 then f else if 1 / 2 < r then f + 1 else if even f then f else f + 1)"

definition fl :: "rat \<Rightarrow> rat" where
  "fl x =
     (if x = 0 then 0
      else let u = 2 powi (floor_log2 \<bar>x\<bar> - 52)
           in of_int (round_half_even (x / u)) * u)"

definition js_div :: "rat \<Rightarrow> rat \<Rightarrow> rat" where
  "js_div x y = fl (x / y)"

definition js_mul :: "rat \<Rightarrow> rat \<Rightarrow> rat" where
  "js_mul x y = fl (x * y)"

fun digitChar :: "nat \<Rightarrow> char" where
  "digitChar d = char_of (48 + d)"

function decimal :: "nat \<Rightarrow> string" where
  "decimal n = (if n < 10 then [digitChar n] else decimal (n div 10) @ [digitChar (n mod 10)])"
  by pat_completeness auto
termination
  by (relation "measure id") auto

declare decimal.simps [simp del]

text \<open>
  \<open>x.toFixed(2)\<close> for a finite \<open>x\<close> below \<open>10^21\<close> in magnitude: the integer \<open>n\<close>
  with \<open>n / 100\<close> closest to \<open>\<bar>x\<bar>\<close> (the larger one on a tie), written with at least
  three digits and a point before the last two. (From \<open>10^21\<close> on JavaScript prints
  exponent notation instead; the theorems that speak of two decimals carry that bound.)
\<close>

definition toFixed2 :: "rat \<Rightarrow> string" where
  "toFixed2 x0 =
     (let s = (if x0 < 0 then ''-'' else '''');
          x = \<bar>x0\<bar>;
          n = nat \<lfloor>x * 100 + 1 / 2\<rfloor>;
          m = decimal n;
          m = (if length m \<le> 2 then replicate (3 - length m) (CHR ''0'') @ m else m);
          k = length m
      in s @ take (k - 2) m @ ''.'' @ drop (k - 2) m)"

section \<open>Price display (useDisplayPrice)\<close>

text \<open>
  The fields of a Stripe price that the hook reads. \<open>unit_amount\<close> is a whole amount
  in cents or \<open>null\<close>; \<open>recurring\<close> and its \<open>interval\<close> may be absent. The type of
  \<open>transform_quantity\<close> is left open: only \<open>getAdjustedQuantityForPrice\<close> looks into it.
\<close>

record recurring =
  interval :: "string option"

record 'tq price =
  unit_amount :: "int option"
  recurring :: "recurring option"
  transform_quantity :: "'tq"

text \<open>\<open>price?.recurring?.interval\<close>\<close>

definition recurring_interval :: "('tq, 'z) price_scheme \<Rightarrow> string option" where
  "recurring_interval p = (case recurring p of None \<Rightarrow> None | Some r \<Rightarrow> interval r)"

text \<open>
  The hook, with the two functions it imports as parameters: the translation function
  \<open>t\<close> and \<open>getAdjustedQuantityForPrice\<close>. \<open>submissionQuantity\<close> defaults to 1 when the
  caller passes none. \<open>useMemo\<close> recomputes the value from \<open>price\<close> and
  \<open>submissionQuantity\<close> alone, so the hook is this function of its arguments.
\<close>

definition useDisplayPrice ::
  "(string \<Rightarrow> string) \<Rightarrow> (int \<Rightarrow> 'tq \<Rightarrow> rat) \<Rightarrow> ('tq, 'z) price_scheme option \<Rightarrow> int option \<Rightarrow> string"
where
  "useDisplayPrice t getAdjustedQuantityForPrice price quantity =
     (let submissionQuantity = (case quantity of None \<Rightarrow> 1 | Some q \<Rightarrow> q) in
      case price of
        None \<Rightarrow> t ''Free''
      | Some p \<Rightarrow>
          (case unit_amount p of
             None \<Rightarrow> t ''Free''
           | Some amount \<Rightarrow>
               if \<not> truthy_number amount then t ''Free''
               else
                 let totalPrice = js_div (of_int amount) 100;
                     totalPrice = (if recurring_interval p = Some ''year''
                                   then js_div totalPrice 12 else totalPrice);
                     totalPrice = js_mul totalPrice
                                    (getAdjustedQuantityForPrice submissionQuantity (transform_quantity p))
                 in if \<not> truthy_opt_string (recurring_interval p)
                    then js_replace (t ''$##price##'') ''##price##'' (toFixed2 totalPrice)
                    else js_replace (t ''$##price## USD/month'') ''##price##'' (toFixed2 totalPrice)))"

section \<open>Submission modal (submissionModal.tsx)\<close>

subsection \<open>Data\<close>

text \<open>
  A validation status as the back end sends it; every property is optional, so that the
  empty object \<open>{}\<close> is the record with no property set.
\<close>

record ValidationStatusResponse =
  timestamp :: "int option"
  uid :: "string option"
  by_whom :: "string option"
  color :: "string option"
  label :: "string option"

definition emptyObject :: ValidationStatusResponse where
  "emptyObject = \<lparr>timestamp = None, uid = None, by_whom = None, color = None, label = None\<rparr>"

text \<open>
  A submission: its identifier, its validation status (\<open>_validation_status\<close> in the
  source; an Isabelle name cannot start with an underscore) and the other properties,
  as pairs of a property name and a value.
\<close>

record SubmissionResponse =
  submission_id :: int
  validation_status :: ValidationStatusResponse
  properties :: "(string \<times> string) list"

record AssetResponse =
  asset_uid :: string
  deployment__active :: bool
  content_translations :: "string option list option"

record TableInfo =
  resultsTotal :: int
  pageSize :: int
  currentPage :: int

text \<open>The \<open>tableInfo\<close> property is pagination data or a boolean.\<close>

datatype TableInfoProp = TableInfoData TableInfo | TableInfoBoolean bool

record SubmissionModalProps =
  sid :: string
  asset :: AssetResponse
  ids :: "int list"
  isDuplicated :: bool
  duplicatedSubmission :: "SubmissionResponse option"
  tableInfo :: TableInfoProp

record TranslationOption =
  option_value :: string
  option_label :: string

text \<open>\<open>submissionDataFetchError\<close> is \<open>false\<close> (no error) or the error message.\<close>

datatype StringOrBoolean = IsString string | IsBoolean bool

text \<open>
  The component state. \<open>previous\<close> and \<open>next\<close>: \<open>-1\<close> means there is none, \<open>-2\<close>
  means there is one but on a different table page.
\<close>

record SubmissionModalState =
  submission :: "SubmissionResponse option"
  isFetchingSubmissionData :: bool
  submissionDataFetchError :: StringOrBoolean
  previous :: int
  "next" :: int
  sid :: string
  isEnketoEditLoading :: bool
  isEnketoViewLoading :: bool
  isDuplicated :: bool
  duplicatedSubmission :: "SubmissionResponse option"
  isEditingDuplicate :: bool
  isRefreshNeeded :: bool
  translationIndex :: int
  translationOptions :: "TranslationOption list"
  showXMLNames :: bool
  isValidationStatusChangePending :: bool

record FailResponse =
  responseText :: "string option"
  statusText :: "string option"

datatype SubmissionPageName = PageNext | PagePrev

text \<open>What the component asks of the modules it imports: requests it sends out.\<close>

datatype ModalParams =
    SubmissionModalParams int AssetResponse "int list" TableInfoProp
  | SubmissionPageParams SubmissionPageName

datatype Effect =
    DataInterface_getSubmission string string
  | PageState_showModal ModalParams
  | Actions_refreshTableSubmissions

subsection \<open>Array helpers\<close>

text \<open>\<open>Array.prototype.findIndex\<close>: the first index whose element passes, or \<open>-1\<close>.\<close>

fun findIndex :: "('a \<Rightarrow> bool) \<Rightarrow> 'a list \<Rightarrow> int" where
  "findIndex P [] = - 1"
| "findIndex P (x # xs) =
     (if P x then 0 else (let i = findIndex P xs in if i = - 1 then - 1 else i + 1))"

text \<open>\<open>xs[i]\<close>: \<open>undefined\<close> (here \<open>None\<close>) outside the array.\<close>

definition element :: "'a list \<Rightarrow> int \<Rightarrow> 'a option" where
  "element xs i = (if 0 \<le> i \<and> i < int (length xs) then Some (xs ! nat i) else None)"

text \<open>\<open>if (xs[i])\<close> on an array of numbers: the element exists and is not zero.\<close>

definition truthy_element :: "int list \<Rightarrow> int \<Rightarrow> bool" where
  "truthy_element xs i = (case element xs i of None \<Rightarrow> False | Some v \<Rightarrow> truthy_number v)"

subsection \<open>Loading a submission\<close>

definition DETAIL_NOT_FOUND :: string where
  "DETAIL_NOT_FOUND =
     ''{'' @ [CHR 0x22] @ ''detail'' @ [CHR 0x22] @ '':'' @ [CHR 0x22] @ ''Not found.'' @ [CHR 0x22] @ ''}''"

definition constructor :: "(string \<Rightarrow> string) \<Rightarrow> SubmissionModalProps \<Rightarrow> SubmissionModalState" where
  "constructor t props =
     (let unnamed = \<lparr>option_value = [], option_label = t ''Unnamed language''\<rparr>;
          translationOptions =
            (case content_translations (asset props) of
               None \<Rightarrow> []
             | Some trs \<Rightarrow>
                 if 1 < length trs
                 then map (\<lambda>trns. case trns of
                              None \<Rightarrow> unnamed
                            | Some l \<Rightarrow> if truthy_string l
                                        then \<lparr>option_value = l, option_label = l\<rparr>
                                        else unnamed) trs
                 else [])
      in \<lparr>submission = None,
          isFetchingSubmissionData = True,
          submissionDataFetchError = IsBoolean False,
          previous = - 1,
          next = - 1,
          sid = SubmissionModalProps.sid props,
          isEnketoEditLoading = False,
          isEnketoViewLoading = False,
          isDuplicated = SubmissionModalProps.isDuplicated props,
          duplicatedSubmission = SubmissionModalProps.duplicatedSubmission props,
          isEditingDuplicate = False,
          isRefreshNeeded = False,
          translationIndex = 0,
          translationOptions = translationOptions,
          showXMLNames = False,
          isValidationStatusChangePending = False\<rparr>)"

text \<open>
  \<open>getSubmission\<close> up to the request: the component is marked as fetching and the
  request goes to the back end. The two callbacks follow.
\<close>

definition getSubmission ::
  "string \<Rightarrow> string \<Rightarrow> SubmissionModalState \<Rightarrow> SubmissionModalState \<times> Effect list"
where
  "getSubmission assetUid sid' s =
     (s\<lparr>isFetchingSubmissionData := True\<rparr>, [DataInterface_getSubmission assetUid sid'])"

text \<open>
  The values of \<open>prev\<close> and \<open>next\<close> that the \<open>done\<close> callback computes from the
  properties and the requested \<open>sid\<close>. \<open>props.ids\<close> is an array, so \<open>this.props.ids\<close> is
  truthy; \<open>k === Number.parseInt(sid)\<close> is false for every \<open>k\<close> when the result is \<open>NaN\<close>.
\<close>

definition prevAndNext :: "SubmissionModalProps \<Rightarrow> string \<Rightarrow> int \<times> int" where
  "prevAndNext props sid' =
     (let prev = - 1; nxt = - 1 in
      if truthy_string sid' then
        let c = findIndex (\<lambda>k. Some k = parseInt sid') (ids props);
            tableInfo' = (case tableInfo props of
                            TableInfoBoolean b \<Rightarrow> TableInfoBoolean (b \<or> False)
                          | TableInfoData ti \<Rightarrow> TableInfoData ti);
            prev = (if truthy_element (ids props) (c - 1) then (ids props) ! nat (c - 1) else prev);
            nxt = (if truthy_element (ids props) (c + 1) then (ids props) ! nat (c + 1) else nxt)
        in (case tableInfo' of
              TableInfoBoolean b \<Rightarrow> (prev, nxt)
            | TableInfoData ti \<Rightarrow>
                let nextAvailable = (resultsTotal ti > (currentPage ti + 1) * pageSize ti);
                    nxt = (if c + 1 = int (length (ids props)) \<and> nextAvailable then - 2 else nxt);
                    prev = (if currentPage ti > 0 \<and> prev = - 1 then - 2 else prev)
                in (prev, nxt))
      else (prev, nxt))"

definition getSubmission_done ::
  "SubmissionModalProps \<Rightarrow> string \<Rightarrow> SubmissionResponse \<Rightarrow> SubmissionModalState
     \<Rightarrow> SubmissionModalState \<times> Effect list"
where
  "getSubmission_done props sid' data s =
     (let (prev, nxt) = prevAndNext props sid'
      in (s\<lparr>submission := Some data,
            isFetchingSubmissionData := False,
            next := nxt,
            previous := prev\<rparr>, []))"

definition getSubmission_fail ::
  "(string \<Rightarrow> string) \<Rightarrow> string \<Rightarrow> FailResponse \<Rightarrow> SubmissionModalState
     \<Rightarrow> SubmissionModalState \<times> Effect list"
where
  "getSubmission_fail t sid' error s =
     (if truthy_opt_string (responseText error) then
        let error_message = (case responseText error of Some b \<Rightarrow> b | None \<Rightarrow> []);
            error_message =
              (if error_message = DETAIL_NOT_FOUND
               then js_replace
                      (t ''The submission could not be found. It may have been deleted. Submission ID: ##id##'')
                      ''##id##'' sid'
               else error_message)
        in (s\<lparr>submissionDataFetchError := IsString error_message,
              isFetchingSubmissionData := False\<rparr>, [])
      else if truthy_opt_string (statusText error) then
        (s\<lparr>submissionDataFetchError := IsString (case statusText error of Some b \<Rightarrow> b | None \<Rightarrow> []),
           isFetchingSubmissionData := False\<rparr>, [])
      else
        (s\<lparr>submissionDataFetchError := IsString (t ''Error: could not load data.''),
           isFetchingSubmissionData := False\<rparr>, []))"

subsection \<open>Life cycle\<close>

text \<open>
  \<open>componentDidMount\<close> registers the listeners for the validation status and deletion
  actions (their handlers are below) and loads the submission named in the state.
\<close>

definition componentDidMount ::
  "SubmissionModalProps \<Rightarrow> SubmissionModalState \<Rightarrow> SubmissionModalState \<times> Effect list"
where
  "componentDidMount props s = getSubmission (asset_uid (asset props)) (sid s) s"

text \<open>Opening the modal: the constructor, then \<open>componentDidMount\<close>.\<close>

definition mount ::
  "(string \<Rightarrow> string) \<Rightarrow> SubmissionModalProps \<Rightarrow> SubmissionModalState \<times> Effect list"
where
  "mount t props = componentDidMount props (constructor t props)"

text \<open>
  \<open>getDerivedStateFromProps\<close> (it also sets \<open>promptRefresh\<close>, a property that is not
  part of the state interface and that nothing reads).
\<close>

definition getDerivedStateFromProps ::
  "SubmissionModalProps \<Rightarrow> SubmissionModalState \<Rightarrow> SubmissionModalState"
where
  "getDerivedStateFromProps props s =
     (if \<not> (sid s = SubmissionModalProps.sid props)
      then s\<lparr>sid := SubmissionModalProps.sid props\<rparr>
      else s)"

text \<open>\<open>props.asset\<close> is an object, so \<open>this.props.asset\<close> is truthy.\<close>

definition componentDidUpdate ::
  "SubmissionModalProps \<Rightarrow> SubmissionModalProps \<Rightarrow> SubmissionModalState
     \<Rightarrow> SubmissionModalState \<times> Effect list"
where
  "componentDidUpdate prevProps props s =
     (if SubmissionModalProps.sid prevProps \<noteq> SubmissionModalProps.sid props
      then getSubmission (asset_uid (asset props)) (SubmissionModalProps.sid props) s
      else (s, []))"

subsection \<open>Actions\<close>

definition triggerRefresh ::
  "SubmissionModalProps \<Rightarrow> SubmissionModalState \<Rightarrow> SubmissionModalState \<times> Effect list"
where
  "triggerRefresh props s =
     (let (s, requests) = getSubmission (asset_uid (asset props)) (SubmissionModalProps.sid props) s;
          s = s\<lparr>isRefreshNeeded := False\<rparr>
      in (s, requests @ [Actions_refreshTableSubmissions]))"

definition switchSubmission ::
  "int \<Rightarrow> SubmissionModalProps \<Rightarrow> SubmissionModalState \<Rightarrow> SubmissionModalState \<times> Effect list"
where
  "switchSubmission prevOrNext props s =
     (s\<lparr>isFetchingSubmissionData := True\<rparr>,
      [PageState_showModal
         (SubmissionModalParams prevOrNext (asset props) (ids props)
            (case tableInfo props of
               TableInfoBoolean b \<Rightarrow> TableInfoBoolean (b \<or> False)
             | TableInfoData ti \<Rightarrow> TableInfoData ti))])"

definition switchSubmissionFromOtherTablePage ::
  "SubmissionPageName \<Rightarrow> SubmissionModalState \<Rightarrow> SubmissionModalState \<times> Effect list"
where
  "switchSubmissionFromOtherTablePage newPage s =
     (s\<lparr>isFetchingSubmissionData := True\<rparr>, [PageState_showModal (SubmissionPageParams newPage)])"

text \<open>The click handlers of the Previous and Next buttons (\<open>renderSubmissionActions\<close>).\<close>

definition onPreviousClick ::
  "SubmissionModalProps \<Rightarrow> SubmissionModalState \<Rightarrow> SubmissionModalState \<times> Effect list"
where
  "onPreviousClick props s =
     (if previous s = - 2 then switchSubmissionFromOtherTablePage PagePrev s
      else switchSubmission (previous s) props s)"

definition onNextClick ::
  "SubmissionModalProps \<Rightarrow> SubmissionModalState \<Rightarrow> SubmissionModalState \<times> Effect list"
where
  "onNextClick props s =
     (if next s = - 2 then switchSubmissionFromOtherTablePage PageNext s
      else switchSubmission (next s) props s)"

text \<open>\<open>clonedeep\<close> copies a value; values are immutable here, so the copy is the value.\<close>

definition clonedeep :: "'a \<Rightarrow> 'a" where
  "clonedeep x = x"

text \<open>
  The callback for a finished change of validation status. \<open>result\<close> may be absent
  (\<open>None\<close>); \<open>result && result.uid\<close> asks for a result with a non-empty \<open>uid\<close>.
\<close>

definition refreshSubmissionValidationStatus ::
  "ValidationStatusResponse option \<Rightarrow> SubmissionModalState \<Rightarrow> SubmissionModalState"
where
  "refreshSubmissionValidationStatus result s =
     (let s = s\<lparr>isValidationStatusChangePending := False\<rparr> in
      case submission s of
        None \<Rightarrow> s
      | Some current \<Rightarrow>
          let newSubmissionData = clonedeep current;
              newSubmissionData =
                (case result of
                   None \<Rightarrow> newSubmissionData\<lparr>validation_status := emptyObject\<rparr>
                 | Some r \<Rightarrow>
                     if truthy_opt_string (uid r)
                     then newSubmissionData\<lparr>validation_status := r\<rparr>
                     else newSubmissionData\<lparr>validation_status := emptyObject\<rparr>)
          in s\<lparr>submission := Some newSubmissionData\<rparr>)"

subsection \<open>The page-level store\<close>

text \<open>\<open>String(n)\<close> for an integer: the text through which the modal uses a numeric sid.\<close>

definition numberToString :: "int \<Rightarrow> string" where
  "numberToString n = (if n < 0 then ''-'' @ decimal (nat (- n)) else decimal (nat n))"

text \<open>
  Modelled from the spec: what the page-level store and the data table do with a
  \<open>showModal\<close> request (\<open>pageState.store\<close> and the table component, which are not among
  the sources). The spec gives the contract \<open>showModal({type, sid, asset, ids, tableInfo})\<close>,
  says that the component notifies the store to trigger "modal replacement (simulating
  next/previous navigation by closing and reopening the modal with new parameters)", and
  that on \<open>-2\<close> "the caller must request the adjacent page from an external table
  component before resolving the actual target id". So a request that names a sid reopens
  the modal with the parameters of the request, and a request that names a page reopens
  it with the properties the table resolves for that page (\<open>tablePage\<close>, a parameter).
\<close>

definition pageState_showModal ::
  "(string \<Rightarrow> string) \<Rightarrow> (SubmissionPageName \<Rightarrow> SubmissionModalProps) \<Rightarrow> ModalParams
     \<Rightarrow> SubmissionModalState \<times> Effect list"
where
  "pageState_showModal t tablePage params =
     mount t (case params of
              SubmissionModalParams n a is ti \<Rightarrow>
                \<lparr>SubmissionModalProps.sid = numberToString n,
                 asset = a,
                 ids = is,
                 SubmissionModalProps.isDuplicated = False,
                 SubmissionModalProps.duplicatedSubmission = None,
                 tableInfo = ti\<rparr>
            | SubmissionPageParams page \<Rightarrow> tablePage page)"

section \<open>Confirmation guard (ProtectorHelpers)\<close>

text \<open>
  An execution records what \<open>safeExecute\<close> does to its surroundings: the prompts shown
  to the user, how often the callback was invoked, and the state the callback works on.
\<close>

record 'w Execution =
  promptsShown :: "string list"
  callbackInvocations :: nat
  world :: 'w

text \<open>
  \<open>confirm(message)\<close> shows the message and returns the user's answer at once;
  \<open>answer\<close> is what the user replies to a message.
\<close>

definition confirm :: "(string \<Rightarrow> bool) \<Rightarrow> string \<Rightarrow> 'w Execution \<Rightarrow> bool \<times> 'w Execution" where
  "confirm answer message e = (answer message, e\<lparr>promptsShown := promptsShown e @ [message]\<rparr>)"

definition invoke :: "('w \<Rightarrow> 'w) \<Rightarrow> 'w Execution \<Rightarrow> 'w Execution" where
  "invoke callback e =
     e\<lparr>callbackInvocations := callbackInvocations e + 1, world := callback (world e)\<rparr>"

text \<open>
  \<open>safeExecute\<close>; the text \<open>UNSAVED_CHANGES_WARNING\<close> is a constant of another module and
  a parameter here.
\<close>

definition safeExecute ::
  "string \<Rightarrow> (string \<Rightarrow> bool) \<Rightarrow> bool \<Rightarrow> ('w \<Rightarrow> 'w) \<Rightarrow> 'w Execution \<Rightarrow> 'w Execution"
where
  "safeExecute UNSAVED_CHANGES_WARNING answer shouldProtect callback e =
     (if shouldProtect then
        (let (confirmed, e) = confirm answer UNSAVED_CHANGES_WARNING e
         in if confirmed then invoke callback e else e)
      else invoke callback e)"

section \<open>Analysis tab (analysisTab.component.tsx)\<close>

text \<open>
  Modelled from the spec: the reducer \<open>analysisQuestionsReducer\<close>, its \<open>initialState\<close>
  and the question type (module \<open>analysisQuestions.reducer\<close>, which is not among the
  sources). The spec describes "a question definition (schema-derived) paired with zero
  or one response value; held in an ordered collection", "a pure state transition
  function over {questions, hasUnsavedWork} driven by a closed set of action kinds
  (initialize with schema+responses, edit a response, mark saved)", and a derived
  boolean \<open>hasUnsavedWork\<close> that "is recomputed on each mutation" and "reflects exactly
  whether any response differs from its last-saved value". Each question therefore
  carries its response and the value last saved for it.
\<close>

record AnalysisQuestion =
  question_uuid :: string
  response :: "string option"
  lastSaved :: "string option"

record AnalysisQuestionsState =
  questions :: "AnalysisQuestion list"
  hasUnsavedWork :: bool

datatype AnalysisQuestionsAction =
    setQuestions "AnalysisQuestion list"
  | updateResponse string "string option"
  | markSaved

text \<open>Modelled from the spec: the initial state, with no question and no unsaved work.\<close>

definition initialState :: AnalysisQuestionsState where
  "initialState = \<lparr>questions = [], hasUnsavedWork = False\<rparr>"

definition differsFromSaved :: "AnalysisQuestion \<Rightarrow> bool" where
  "differsFromSaved q = (response q \<noteq> lastSaved q)"

text \<open>
  Modelled from the spec: \<open>hasUnsavedWork\<close> "is recomputed on each mutation" as "whether
  any response differs from its last-saved value".
\<close>

definition recompute :: "AnalysisQuestion list \<Rightarrow> AnalysisQuestionsState" where
  "recompute qs = \<lparr>questions = qs, hasUnsavedWork = list_ex differsFromSaved qs\<rparr>"

text \<open>
  Modelled from the spec: the reducer, with its three kinds of action. Initialising takes
  the loaded responses as the saved ones; an edit replaces the response of the question
  named; marking as saved takes every response as saved.
\<close>

fun analysisQuestionsReducer ::
  "AnalysisQuestionsState \<Rightarrow> AnalysisQuestionsAction \<Rightarrow> AnalysisQuestionsState"
where
  "analysisQuestionsReducer s (setQuestions qs) =
     recompute (map (\<lambda>q. q\<lparr>lastSaved := response q\<rparr>) qs)"
| "analysisQuestionsReducer s (updateResponse u v) =
     recompute (map (\<lambda>q. if question_uuid q = u then q\<lparr>response := v\<rparr> else q) (questions s))"
| "analysisQuestionsReducer s markSaved =
     recompute (map (\<lambda>q. q\<lparr>lastSaved := response q\<rparr>) (questions s))"

text \<open>
  The component, from the source. The page-level store keeps the flag that blocks
  navigation; \<open>setAnalysisTabHasUnsavedChanges\<close> stores its argument there.
\<close>

record SingleProcessingStore =
  analysisTabHasUnsavedChanges :: bool

definition setAnalysisTabHasUnsavedChanges :: "bool \<Rightarrow> SingleProcessingStore \<Rightarrow> SingleProcessingStore" where
  "setAnalysisTabHasUnsavedChanges v store = store\<lparr>analysisTabHasUnsavedChanges := v\<rparr>"

record AnalysisTab =
  isInitialised :: bool
  isErrored :: bool
  state :: AnalysisQuestionsState

definition initialTab :: AnalysisTab where
  "initialTab = \<lparr>isInitialised = False, isErrored = False, state = initialState\<rparr>"

definition dispatch :: "AnalysisQuestionsAction \<Rightarrow> AnalysisTab \<Rightarrow> AnalysisTab" where
  "dispatch action tab = tab\<lparr>state := analysisQuestionsReducer (state tab) action\<rparr>"

text \<open>
  \<open>setupQuestions\<close>. Its parameters stand for what the imported helpers return:
  \<open>schemaQuestions\<close> for \<open>getQuestionsFromSchema\<close>, \<open>processingUrl\<close> for
  \<open>getAssetSubmissionProcessingUrl\<close> (possibly absent), \<open>fetched\<close> for the outcome of
  \<open>fetchGetUrl\<close> (\<open>Inl\<close> a failure, \<open>Inr\<close> the response) and \<open>applyUpdateResponse\<close> for
  \<open>applyUpdateResponseToInternalQuestions\<close> at the current question path. A failed fetch
  is also reported through \<open>handleApiFail\<close>, which does not touch the component.
\<close>

definition setupQuestions ::
  "AnalysisQuestion list \<Rightarrow> string option \<Rightarrow> (FailResponse + 'r)
     \<Rightarrow> ('r \<Rightarrow> AnalysisQuestion list \<Rightarrow> AnalysisQuestion list) \<Rightarrow> AnalysisTab \<Rightarrow> AnalysisTab"
where
  "setupQuestions schemaQuestions processingUrl fetched applyUpdateResponse tab =
     (let questions' = schemaQuestions in
      case (if truthy_opt_string processingUrl
            then (case fetched of
                    Inl err \<Rightarrow> Inl err
                  | Inr apiResponse \<Rightarrow> Inr (applyUpdateResponse apiResponse questions'))
            else Inr questions') of
        Inr questions' \<Rightarrow> (dispatch (setQuestions questions') tab)\<lparr>isInitialised := True\<rparr>
      | Inl err \<Rightarrow> tab\<lparr>isInitialised := True, isErrored := True\<rparr>)"

text \<open>
  The effect with the dependency list \<open>[state.hasUnsavedWork]\<close>: it runs after the first
  render (\<open>prevDep = None\<close>) and after every render in which \<open>state.hasUnsavedWork\<close> differs
  from its value at the render before.
\<close>

definition hasUnsavedWorkEffect ::
  "bool option \<Rightarrow> AnalysisTab \<Rightarrow> SingleProcessingStore \<Rightarrow> SingleProcessingStore"
where
  "hasUnsavedWorkEffect prevDep tab store =
     (if prevDep = Some (hasUnsavedWork (state tab)) then store
      else setAnalysisTabHasUnsavedChanges (hasUnsavedWork (state tab)) store)"

text \<open>The renders of the component, one per state it goes through, with their effects.\<close>

fun renders :: "bool option \<Rightarrow> AnalysisTab list \<Rightarrow> SingleProcessingStore \<Rightarrow> SingleProcessingStore" where
  "renders prevDep [] store = store"
| "renders prevDep (tab # tabs) store =
     renders (Some (hasUnsavedWork (state tab))) tabs (hasUnsavedWorkEffect prevDep tab store)"

text \<open>The states the component goes through when the actions are dispatched in turn.\<close>

fun tabStates :: "AnalysisTab \<Rightarrow> AnalysisQuestionsAction list \<Rightarrow> AnalysisTab list" where
  "tabStates tab [] = [tab]"
| "tabStates tab (a # as) = tab # tabStates (dispatch a tab) as"

section \<open>Sample inputs\<close>

text \<open>Concrete inputs, at which the theorems below are instantiated.\<close>

definition sampleAsset :: AssetResponse where
  "sampleAsset = \<lparr>asset_uid = ''aTk9x'', deployment__active = True, content_translations = None\<rparr>"

definition sampleProps :: "string \<Rightarrow> int list \<Rightarrow> TableInfoProp \<Rightarrow> SubmissionModalProps" where
  "sampleProps sid' ids' tableInfo' =
     \<lparr>SubmissionModalProps.sid = sid',
      asset = sampleAsset,
      ids = ids',
      SubmissionModalProps.isDuplicated = False,
      SubmissionModalProps.duplicatedSubmission = None,
      tableInfo = tableInfo'\<rparr>"

definition samplePage :: "int \<Rightarrow> TableInfoProp" where
  "samplePage page = TableInfoData \<lparr>resultsTotal = 100, pageSize = 30, currentPage = page\<rparr>"

definition sampleStatus :: ValidationStatusResponse where
  "sampleStatus =
     \<lparr>timestamp = Some 1700000000, uid = Some ''validation_status_approved'',
      by_whom = Some ''kate'', color = None, label = Some ''Approved''\<rparr>"

definition sampleSubmission :: SubmissionResponse where
  "sampleSubmission =
     \<lparr>submission_id = 42, validation_status = emptyObject,
      properties = [(''name'', ''Ann''), (''_uuid'', ''f0e1'')]\<rparr>"

definition sampleState :: SubmissionModalState where
  "sampleState = constructor (\<lambda>m. m) (sampleProps ''42'' [41, 42, 43] (samplePage 1))"

definition sampleQuestion :: AnalysisQuestion where
  "sampleQuestion = \<lparr>question_uuid = ''q1'', response = Some ''likes coffee'', lastSaved = None\<rparr>"

section \<open>Theorems\<close>

subsection \<open>Auxiliary facts\<close>

lemma parseInt_truthy: "parseInt sid' = Some n \<Longrightarrow> truthy_string sid'"
  by (cases sid') (auto simp: parseInt_def truthy_string_def)

lemma getSubstitution_plain:
  "CHR ''$'' \<notin> set r \<Longrightarrow> getSubstitution m b a r = r"
  by (induction m b a r rule: getSubstitution.induct) auto

lemma js_replace_id:
  "CHR ''$'' \<notin> set r \<Longrightarrow>
   js_replace ''The submission could not be found. It may have been deleted. Submission ID: ##id##''
     ''##id##'' r
     = ''The submission could not be found. It may have been deleted. Submission ID: '' @ r"
  by (simp add: js_replace_def getSubstitution_plain)

lemma js_replace_price_month:
  "CHR ''$'' \<notin> set r \<Longrightarrow>
   js_replace ''$##price## USD/month'' ''##price##'' r = ''$'' @ r @ '' USD/month''"
  by (simp add: js_replace_def getSubstitution_plain)

lemma findIndex_range: "- 1 \<le> findIndex P xs \<and> findIndex P xs < int (length xs)"
  by (induction xs) (auto simp: Let_def)

lemma findIndex_none: "findIndex P xs = - 1 \<longleftrightarrow> (\<forall>x \<in> set xs. \<not> P x)"
proof (induction xs)
  case Nil
  show ?case by simp
next
  case (Cons x xs)
  have "- 1 \<le> findIndex P xs" using findIndex_range [of P xs] by simp
  then show ?case using Cons by (auto simp: Let_def)
qed

lemma truthy_element_iff:
  "truthy_element xs i \<longleftrightarrow> 0 \<le> i \<and> i < int (length xs) \<and> xs ! nat i \<noteq> 0"
  by (auto simp: truthy_element_def element_def truthy_number_def)

lemma findIndex_first:
  "c < length xs \<Longrightarrow> P (xs ! c) \<Longrightarrow> \<forall>j<c. \<not> P (xs ! j) \<Longrightarrow> findIndex P xs = int c"
proof (induction xs arbitrary: c)
  case Nil
  then show ?case by simp
next
  case (Cons x xs)
  show ?case
  proof (cases c)
    case 0
    with Cons.prems show ?thesis by simp
  next
    case (Suc d)
    from Cons.prems Suc have nx: "\<not> P x" by auto
    from Cons.prems Suc have "d < length xs" "P (xs ! d)" "\<forall>j<d. \<not> P (xs ! j)" by auto
    then have "findIndex P xs = int d" by (rule Cons.IH)
    with nx Suc show ?thesis by (simp add: Let_def)
  qed
qed

lemma prevAndNext_at:
  assumes sid: "parseInt sid' = Some n"
    and c: "c < length (ids props)" "ids props ! c = n" "\<forall>j<c. ids props ! j \<noteq> n"
    and pos: "\<forall>k \<in> set (ids props). 0 < k"
  shows "prevAndNext props sid' =
     ((if 0 < c then ids props ! (c - 1)
       else if (\<exists>ti. tableInfo props = TableInfoData ti \<and> 0 < currentPage ti) then - 2 else - 1),
      (if c + 1 < length (ids props) then ids props ! (c + 1)
       else if (\<exists>ti. tableInfo props = TableInfoData ti
                  \<and> (currentPage ti + 1) * pageSize ti < resultsTotal ti) then - 2 else - 1))"
proof -
  have fi: "findIndex (\<lambda>k. Some k = parseInt sid') (ids props) = int c"
    using c sid by (intro findIndex_first) auto
  have tr: "truthy_string sid'" using sid by (rule parseInt_truthy)
  have nz: "\<And>i. i < length (ids props) \<Longrightarrow> ids props ! i \<noteq> 0 \<and> ids props ! i \<noteq> - 1 \<and> ids props ! i \<noteq> - 2"
    using pos by (metis nth_mem less_irrefl neg_less_0_iff_less zero_less_one zero_less_numeral order.strict_trans)
  have te1: "truthy_element (ids props) (int c - 1) \<longleftrightarrow> 0 < c"
    using c(1) nz [of "c - 1"] by (auto simp: truthy_element_iff nat_diff_distrib)
  have te2: "truthy_element (ids props) (int c + 1) \<longleftrightarrow> c + 1 < length (ids props)"
    using nz [of "c + 1"] by (auto simp: truthy_element_iff nat_add_distrib)
  have n1: "nat (int c - 1) = c - 1" by simp
  have n2: "nat (int c + 1) = c + 1" by simp
  have a: "0 < c \<Longrightarrow> ids props ! (c - 1) \<noteq> - 1" using nz [of "c - 1"] c(1) by simp
  have b: "(int c + 1 = int (length (ids props))) \<longleftrightarrow> \<not> c + 1 < length (ids props)"
    using c(1) by auto
  have unf: "prevAndNext props sid' =
     (let prev = (if 0 < c then ids props ! (c - 1) else - 1);
          nxt = (if c + 1 < length (ids props) then ids props ! (c + 1) else - 1)
      in case tableInfo props of
           TableInfoBoolean b \<Rightarrow> (prev, nxt)
         | TableInfoData ti \<Rightarrow>
             ((if currentPage ti > 0 \<and> prev = - 1 then - 2 else prev),
              (if \<not> c + 1 < length (ids props) \<and> resultsTotal ti > (currentPage ti + 1) * pageSize ti
               then - 2 else nxt)))"
    unfolding prevAndNext_def Let_def fi te1 te2 n1 n2 b
    using tr by (simp split: TableInfoProp.split)
  show ?thesis
    unfolding unf Let_def using a by (cases "tableInfo props") auto
qed

lemma prevAndNext_absent:
  assumes tr: "truthy_string sid'"
    and fi: "findIndex (\<lambda>k. Some k = parseInt sid') (ids props) = - 1"
    and ne: "ids props \<noteq> []"
  shows "prevAndNext props sid' =
     ((if (\<exists>ti. tableInfo props = TableInfoData ti \<and> 0 < currentPage ti) then - 2 else - 1),
      (if truthy_number (hd (ids props)) then hd (ids props) else - 1))"
proof -
  have te1: "\<not> truthy_element (ids props) (- 2)" by (simp add: truthy_element_iff)
  have te2: "truthy_element (ids props) 0 \<longleftrightarrow> truthy_number (hd (ids props))"
    using ne by (cases "ids props") (auto simp: truthy_element_iff truthy_number_def)
  have h: "ids props ! 0 = hd (ids props)" using ne by (cases "ids props") auto
  show ?thesis
  proof (cases "tableInfo props")
    case (TableInfoBoolean b)
    then show ?thesis using tr by (simp add: prevAndNext_def fi te1 te2 h Let_def)
  next
    case (TableInfoData ti)
    then show ?thesis using tr ne by (simp add: prevAndNext_def fi te1 te2 h Let_def)
  qed
qed

lemma digitChar_not_dollar: "d < 10 \<Longrightarrow> digitChar d \<noteq> CHR ''$''"
proof -
  assume "d < 10"
  then have "d \<in> {0,1,2,3,4,5,6,7,8,9}" by auto
  then show ?thesis by (auto simp: char_of_def)
qed

lemma decimal_no_dollar: "CHR ''$'' \<notin> set (decimal n)"
proof (induction n rule: decimal.induct)
  case (1 n)
  show ?case
  proof (cases "n < 10")
    case True
    then show ?thesis using digitChar_not_dollar [of n] by (subst decimal.simps) simp
  next
    case False
    have "n mod 10 < 10" by simp
    then have "digitChar (n mod 10) \<noteq> CHR ''$''" by (rule digitChar_not_dollar)
    with 1 False show ?thesis by (subst decimal.simps) auto
  qed
qed

lemma length_two: "length xs = 2 \<Longrightarrow> \<exists>a b. xs = [a, b]"
  by (auto simp: length_Suc_conv numeral_2_eq_2)

lemma toFixed2_shape:
  "\<exists>m. 3 \<le> length m \<and> CHR ''$'' \<notin> set m \<and>
       toFixed2 x = (if x < 0 then ''-'' else []) @ take (length m - 2) m @ ''.'' @ drop (length m - 2) m"
proof -
  define m0 where "m0 = decimal (nat \<lfloor>\<bar>x\<bar> * 100 + 1 / 2\<rfloor>)"
  define m where "m = (if length m0 \<le> 2 then replicate (3 - length m0) (CHR ''0'') @ m0 else m0)"
  have m0: "CHR ''$'' \<notin> set m0" unfolding m0_def by (rule decimal_no_dollar)
  then have m: "CHR ''$'' \<notin> set m" by (auto simp: m_def)
  have len: "3 \<le> length m" by (auto simp: m_def)
  have "toFixed2 x = (if x < 0 then ''-'' else []) @ take (length m - 2) m @ ''.'' @ drop (length m - 2) m"
    by (simp add: toFixed2_def Let_def m_def m0_def)
  with m len show ?thesis by blast
qed

lemma toFixed2_two_decimals:
  "\<exists>w d1 d2. toFixed2 x = w @ [CHR ''.'', d1, d2]"
proof -
  obtain m where len: "3 \<le> length m"
    and eq: "toFixed2 x = (if x < 0 then ''-'' else []) @ take (length m - 2) m @ ''.'' @ drop (length m - 2) m"
    using toFixed2_shape by blast
  from len have "length (drop (length m - 2) m) = 2" by simp
  then obtain d1 d2 where d: "drop (length m - 2) m = [d1, d2]"
    using length_two by blast
  have "toFixed2 x = ((if x < 0 then ''-'' else []) @ take (length m - 2) m) @ [CHR ''.'', d1, d2]"
    unfolding eq d by simp
  then show ?thesis by blast
qed

lemma toFixed2_no_dollar: "CHR ''$'' \<notin> set (toFixed2 x)"
proof -
  obtain m where m: "CHR ''$'' \<notin> set m"
    and eq: "toFixed2 x = (if x < 0 then ''-'' else []) @ take (length m - 2) m @ ''.'' @ drop (length m - 2) m"
    using toFixed2_shape by blast
  from m have "CHR ''$'' \<notin> set (take (length m - 2) m)" "CHR ''$'' \<notin> set (drop (length m - 2) m)"
    by (auto dest: in_set_takeD in_set_dropD)
  then show ?thesis unfolding eq by auto
qed

lemma js_div_1200: "js_div 1200 100 = 12" by code_simp
lemma js_div_12: "js_div 12 12 = 1" by code_simp
lemma js_mul_12: "js_mul 12 1 = 12" by code_simp
lemma js_mul_1: "js_mul 1 1 = 1" by code_simp
lemma toFixed2_12: "toFixed2 12 = ''12.00''" by code_simp
lemma toFixed2_1: "toFixed2 1 = ''1.00''" by code_simp

lemma parseInt_41: "parseInt ''41'' = Some 41"
  by (simp add: parseInt_def digitsToInt_def digitValue_def isWhiteSpace_def)
lemma parseInt_42: "parseInt ''42'' = Some 42"
  by (simp add: parseInt_def digitsToInt_def digitValue_def isWhiteSpace_def)
lemma parseInt_43: "parseInt ''43'' = Some 43"
  by (simp add: parseInt_def digitsToInt_def digitValue_def isWhiteSpace_def)
lemma parseInt_50: "parseInt ''50'' = Some 50"
  by (simp add: parseInt_def digitsToInt_def digitValue_def isWhiteSpace_def)

lemma tableInfo_or_false:
  "(case ti of TableInfoBoolean b \<Rightarrow> TableInfoBoolean (b \<or> False) | TableInfoData d \<Rightarrow> TableInfoData d) = ti"
  by (cases ti) simp_all


lemma numberToString_43: "numberToString 43 = ''43''"
  by code_simp


lemma recompute_flag:
  "hasUnsavedWork (recompute qs) = (\<exists>q \<in> set qs. response q \<noteq> lastSaved q)"
  by (simp add: recompute_def list_ex_iff differsFromSaved_def)

lemma recompute_questions: "questions (recompute qs) = qs"
  by (simp add: recompute_def)

lemma reducer_recomputes:
  "hasUnsavedWork (analysisQuestionsReducer s a) =
     (\<exists>q \<in> set (questions (analysisQuestionsReducer s a)). response q \<noteq> lastSaved q)"
  by (cases a) (simp_all add: recompute_flag recompute_questions)

lemma reachable_flag:
  "hasUnsavedWork (foldl analysisQuestionsReducer initialState actions) =
     (\<exists>q \<in> set (questions (foldl analysisQuestionsReducer initialState actions)).
        response q \<noteq> lastSaved q)"
proof (induction actions rule: rev_induct)
  case Nil
  show ?case by (simp add: initialState_def)
next
  case (snoc a actions)
  show ?case by (simp add: reducer_recomputes)
qed

lemma renders_last:
  "prevDep = None \<or> prevDep = Some (analysisTabHasUnsavedChanges store) \<Longrightarrow> tabs \<noteq> [] \<Longrightarrow>
   analysisTabHasUnsavedChanges (renders prevDep tabs store) = hasUnsavedWork (state (last tabs))"
proof (induction tabs arbitrary: prevDep store)
  case Nil
  then show ?case by simp
next
  case (Cons tab tabs)
  let ?store = "hasUnsavedWorkEffect prevDep tab store"
  have flag: "analysisTabHasUnsavedChanges ?store = hasUnsavedWork (state tab)"
    using Cons.prems(1)
    by (auto simp: hasUnsavedWorkEffect_def setAnalysisTabHasUnsavedChanges_def)
  show ?case
  proof (cases tabs)
    case Nil
    with flag show ?thesis by simp
  next
    case (Cons tab' tabs')
    then have ne: "tabs \<noteq> []" by simp
    have "analysisTabHasUnsavedChanges (renders (Some (hasUnsavedWork (state tab))) tabs ?store)
            = hasUnsavedWork (state (last tabs))"
      using flag ne by (intro Cons.IH) simp_all
    with ne show ?thesis by simp
  qed
qed

lemma tabStates_nonempty: "tabStates tab actions \<noteq> []"
  by (cases actions) simp_all

lemma tabStates_last: "last (tabStates tab actions) = foldl (\<lambda>t a. dispatch a t) tab actions"
  by (induction actions arbitrary: tab) (simp_all add: tabStates_nonempty)

lemma dispatch_state:
  "state (foldl (\<lambda>t a. dispatch a t) tab actions) = foldl analysisQuestionsReducer (state tab) actions"
  by (induction actions arbitrary: tab) (simp_all add: dispatch_def)

subsection \<open>The confirmation guard\<close>

text \<open>
  C4. For every flag \<open>shouldProtect\<close> and every callback: when the flag is false,
  \<open>safeExecute\<close> invokes the callback exactly once and shows no prompt; when the flag is
  true, it shows the prompt once and invokes the callback exactly once if the user
  affirms, and not at all if the user declines.
\<close>

theorem safeExecute_guard:
  "(\<not> shouldProtect \<longrightarrow>
      callbackInvocations (safeExecute w answer shouldProtect callback e) = callbackInvocations e + 1
      \<and> world (safeExecute w answer shouldProtect callback e) = callback (world e)
      \<and> promptsShown (safeExecute w answer shouldProtect callback e) = promptsShown e)
   \<and> (shouldProtect \<and> answer w \<longrightarrow>
      callbackInvocations (safeExecute w answer shouldProtect callback e) = callbackInvocations e + 1
      \<and> world (safeExecute w answer shouldProtect callback e) = callback (world e)
      \<and> promptsShown (safeExecute w answer shouldProtect callback e) = promptsShown e @ [w])
   \<and> (shouldProtect \<and> \<not> answer w \<longrightarrow>
      callbackInvocations (safeExecute w answer shouldProtect callback e) = callbackInvocations e
      \<and> world (safeExecute w answer shouldProtect callback e) = world e
      \<and> promptsShown (safeExecute w answer shouldProtect callback e) = promptsShown e @ [w])"
  by (simp add: safeExecute_def confirm_def invoke_def)

theorem safeExecute_guard_witness:
  "callbackInvocations
     (safeExecute ''Leave?'' (\<lambda>m. True) False Suc
        \<lparr>promptsShown = [], callbackInvocations = 0, world = (7::nat)\<rparr>) = 1
   \<and> callbackInvocations
     (safeExecute ''Leave?'' (\<lambda>m. True) True Suc
        \<lparr>promptsShown = [], callbackInvocations = 0, world = (7::nat)\<rparr>) = 1
   \<and> world
     (safeExecute ''Leave?'' (\<lambda>m. True) True Suc
        \<lparr>promptsShown = [], callbackInvocations = 0, world = (7::nat)\<rparr>) = 8
   \<and> callbackInvocations
     (safeExecute ''Leave?'' (\<lambda>m. False) True Suc
        \<lparr>promptsShown = [], callbackInvocations = 0, world = (7::nat)\<rparr>) = 0
   \<and> world
     (safeExecute ''Leave?'' (\<lambda>m. False) True Suc
        \<lparr>promptsShown = [], callbackInvocations = 0, world = (7::nat)\<rparr>) = 7"
  using
    safeExecute_guard [of False "''Leave?''" "\<lambda>m. True" Suc
      "\<lparr>promptsShown = [], callbackInvocations = 0, world = (7::nat)\<rparr>"]
    safeExecute_guard [of True "''Leave?''" "\<lambda>m. True" Suc
      "\<lparr>promptsShown = [], callbackInvocations = 0, world = (7::nat)\<rparr>"]
    safeExecute_guard [of True "''Leave?''" "\<lambda>m. False" Suc
      "\<lparr>promptsShown = [], callbackInvocations = 0, world = (7::nat)\<rparr>"]
  by simp

subsection \<open>A failed fetch\<close>

text \<open>
  C5. The error stored after a failed fetch falls into exactly these cases. If the
  response body is the not-found body, it is the not-found message with the requested id
  put in place of \<open>##id##\<close> (for an untranslated message and an id without a dollar
  sign: the message followed by the id). Otherwise, if there is a non-empty body, it is
  that body. Otherwise it is the status text if that is non-empty, and the fallback text
  if not.
\<close>

theorem getSubmission_fail_message:
  "(responseText err = Some DETAIL_NOT_FOUND \<longrightarrow>
      submissionDataFetchError (fst (getSubmission_fail t sid' err s)) =
        IsString (js_replace
          (t ''The submission could not be found. It may have been deleted. Submission ID: ##id##'')
          ''##id##'' sid')
      \<and> (t ''The submission could not be found. It may have been deleted. Submission ID: ##id##''
            = ''The submission could not be found. It may have been deleted. Submission ID: ##id##''
          \<and> CHR ''$'' \<notin> set sid' \<longrightarrow>
          submissionDataFetchError (fst (getSubmission_fail t sid' err s)) =
            IsString (''The submission could not be found. It may have been deleted. Submission ID: ''
                      @ sid')))
   \<and> (\<forall>body. responseText err = Some body \<and> body \<noteq> [] \<and> body \<noteq> DETAIL_NOT_FOUND \<longrightarrow>
         submissionDataFetchError (fst (getSubmission_fail t sid' err s)) = IsString body)
   \<and> (\<not> truthy_opt_string (responseText err) \<longrightarrow>
        (\<forall>status. statusText err = Some status \<and> status \<noteq> [] \<longrightarrow>
           submissionDataFetchError (fst (getSubmission_fail t sid' err s)) = IsString status)
        \<and> (\<not> truthy_opt_string (statusText err) \<longrightarrow>
             submissionDataFetchError (fst (getSubmission_fail t sid' err s)) =
               IsString (t ''Error: could not load data.'')))"
proof -
  have nf: "truthy_opt_string (Some DETAIL_NOT_FOUND)"
    by (simp add: truthy_opt_string_def truthy_string_def DETAIL_NOT_FOUND_def)
  have first: "responseText err = Some DETAIL_NOT_FOUND \<Longrightarrow>
      submissionDataFetchError (fst (getSubmission_fail t sid' err s)) =
        IsString (js_replace
          (t ''The submission could not be found. It may have been deleted. Submission ID: ##id##'')
          ''##id##'' sid')"
    using nf by (simp add: getSubmission_fail_def Let_def)
  have body: "\<And>body. responseText err = Some body \<Longrightarrow> body \<noteq> [] \<Longrightarrow> body \<noteq> DETAIL_NOT_FOUND \<Longrightarrow>
      submissionDataFetchError (fst (getSubmission_fail t sid' err s)) = IsString body"
    by (simp add: getSubmission_fail_def Let_def truthy_opt_string_def truthy_string_def)
  have status: "\<And>status. \<not> truthy_opt_string (responseText err) \<Longrightarrow> statusText err = Some status
      \<Longrightarrow> status \<noteq> [] \<Longrightarrow>
      submissionDataFetchError (fst (getSubmission_fail t sid' err s)) = IsString status"
    by (simp add: getSubmission_fail_def Let_def truthy_opt_string_def truthy_string_def)
  have fallback: "\<not> truthy_opt_string (responseText err) \<Longrightarrow> \<not> truthy_opt_string (statusText err)
      \<Longrightarrow> submissionDataFetchError (fst (getSubmission_fail t sid' err s)) =
            IsString (t ''Error: could not load data.'')"
    by (simp add: getSubmission_fail_def Let_def)
  show ?thesis
    using first body status fallback by (auto simp: js_replace_id)
qed

theorem getSubmission_fail_message_witness:
  "submissionDataFetchError
     (fst (getSubmission_fail (\<lambda>m. m) ''42''
        \<lparr>responseText = Some DETAIL_NOT_FOUND, statusText = Some ''Not Found''\<rparr> sampleState)) =
     IsString ''The submission could not be found. It may have been deleted. Submission ID: 42''
   \<and> submissionDataFetchError
     (fst (getSubmission_fail (\<lambda>m. m) ''42''
        \<lparr>responseText = Some ''Server is busy'', statusText = Some ''error''\<rparr> sampleState)) =
     IsString ''Server is busy''
   \<and> submissionDataFetchError
     (fst (getSubmission_fail (\<lambda>m. m) ''42''
        \<lparr>responseText = None, statusText = Some ''Bad Gateway''\<rparr> sampleState)) =
     IsString ''Bad Gateway''
   \<and> submissionDataFetchError
     (fst (getSubmission_fail (\<lambda>m. m) ''42''
        \<lparr>responseText = None, statusText = None\<rparr> sampleState)) =
     IsString ''Error: could not load data.''"
proof -
  have notFound:
    "submissionDataFetchError
       (fst (getSubmission_fail (\<lambda>m. m) ''42''
          \<lparr>responseText = Some DETAIL_NOT_FOUND, statusText = Some ''Not Found''\<rparr> sampleState)) =
     IsString ''The submission could not be found. It may have been deleted. Submission ID: 42''"
    using getSubmission_fail_message
      [of "\<lparr>responseText = Some DETAIL_NOT_FOUND, statusText = Some ''Not Found''\<rparr>"
          "\<lambda>m. m" "''42''" sampleState]
    by (simp add: js_replace_def)
  have body:
    "submissionDataFetchError
       (fst (getSubmission_fail (\<lambda>m. m) ''42''
          \<lparr>responseText = Some ''Server is busy'', statusText = Some ''error''\<rparr> sampleState)) =
     IsString ''Server is busy''"
    using getSubmission_fail_message
      [of "\<lparr>responseText = Some ''Server is busy'', statusText = Some ''error''\<rparr>"
          "\<lambda>m. m" "''42''" sampleState]
    by (simp add: DETAIL_NOT_FOUND_def)
  have status:
    "submissionDataFetchError
       (fst (getSubmission_fail (\<lambda>m. m) ''42''
          \<lparr>responseText = None, statusText = Some ''Bad Gateway''\<rparr> sampleState)) =
     IsString ''Bad Gateway''"
    using getSubmission_fail_message
      [of "\<lparr>responseText = None, statusText = Some ''Bad Gateway''\<rparr>"
          "\<lambda>m. m" "''42''" sampleState]
    by (simp add: truthy_opt_string_def)
  have fallback:
    "submissionDataFetchError
       (fst (getSubmission_fail (\<lambda>m. m) ''42''
          \<lparr>responseText = None, statusText = None\<rparr> sampleState)) =
     IsString ''Error: could not load data.''"
    using getSubmission_fail_message
      [of "\<lparr>responseText = None, statusText = None\<rparr>" "\<lambda>m. m" "''42''" sampleState]
    by (simp add: truthy_opt_string_def)
  from notFound body status fallback show ?thesis by blast
qed

text \<open>
  C6. The failure callback sends no request (so none is repeated) and changes the state
  in two places only: it stores an error message, a text, in \<open>submissionDataFetchError\<close>
  (the not-found message, the response body, the status text or the fallback text, in
  that order of preference) and clears the fetching flag. Taken after the start of the
  fetch, it leaves the submission and the previous and next values as they were before
  the fetch. The render that follows, with the properties unchanged, sends no request
  either.
\<close>

theorem getSubmission_fail_frame:
  "snd (getSubmission_fail t sid' err s) = []
   \<and> isFetchingSubmissionData (fst (getSubmission_fail t sid' err s)) = False
   \<and> fst (getSubmission_fail t sid' err s) =
        s\<lparr>submissionDataFetchError := submissionDataFetchError (fst (getSubmission_fail t sid' err s)),
          isFetchingSubmissionData := False\<rparr>
   \<and> submission (fst (getSubmission_fail t sid' err (fst (getSubmission assetUid sid' s)))) = submission s
   \<and> previous (fst (getSubmission_fail t sid' err (fst (getSubmission assetUid sid' s)))) = previous s
   \<and> next (fst (getSubmission_fail t sid' err (fst (getSubmission assetUid sid' s)))) = next s
   \<and> snd (componentDidUpdate props props (fst (getSubmission_fail t sid' err s))) = []
   \<and> (\<exists>m. submissionDataFetchError (fst (getSubmission_fail t sid' err s)) = IsString m
          \<and> fst (getSubmission_fail t sid' err s) =
               s\<lparr>submissionDataFetchError := IsString m, isFetchingSubmissionData := False\<rparr>)
   \<and> fst (getSubmission_fail t sid' err s) =
        s\<lparr>submissionDataFetchError :=
            IsString
              (if truthy_opt_string (responseText err) then
                 (case responseText err of
                    None \<Rightarrow> []
                  | Some body \<Rightarrow>
                      if body = DETAIL_NOT_FOUND
                      then js_replace
                             (t ''The submission could not be found. It may have been deleted. Submission ID: ##id##'')
                             ''##id##'' sid'
                      else body)
               else if truthy_opt_string (statusText err) then
                 (case statusText err of None \<Rightarrow> [] | Some status \<Rightarrow> status)
               else t ''Error: could not load data.''),
          isFetchingSubmissionData := False\<rparr>"
proof -
  let ?m = "if truthy_opt_string (responseText err) then
                 (case responseText err of
                    None \<Rightarrow> []
                  | Some body \<Rightarrow>
                      if body = DETAIL_NOT_FOUND
                      then js_replace
                             (t ''The submission could not be found. It may have been deleted. Submission ID: ##id##'')
                             ''##id##'' sid'
                      else body)
               else if truthy_opt_string (statusText err) then
                 (case statusText err of None \<Rightarrow> [] | Some status \<Rightarrow> status)
               else t ''Error: could not load data.''"
  have exact: "fst (getSubmission_fail t sid' err s) =
      s\<lparr>submissionDataFetchError := IsString ?m, isFetchingSubmissionData := False\<rparr>"
    by (cases "responseText err"; cases "statusText err")
       (simp_all add: getSubmission_fail_def Let_def truthy_opt_string_def)
  have none: "snd (getSubmission_fail t sid' err s) = []"
    by (simp add: getSubmission_fail_def Let_def)
  have stored: "submissionDataFetchError (fst (getSubmission_fail t sid' err s)) = IsString ?m"
    unfolding exact by simp
  have frame: "fst (getSubmission_fail t sid' err s) =
        s\<lparr>submissionDataFetchError := submissionDataFetchError (fst (getSubmission_fail t sid' err s)),
          isFetchingSubmissionData := False\<rparr>"
    unfolding stored by (rule exact)
  have flag: "isFetchingSubmissionData (fst (getSubmission_fail t sid' err s)) = False"
    unfolding exact by simp
  have before:
    "submission (fst (getSubmission_fail t sid' err (fst (getSubmission assetUid sid' s)))) = submission s"
    "previous (fst (getSubmission_fail t sid' err (fst (getSubmission assetUid sid' s)))) = previous s"
    "next (fst (getSubmission_fail t sid' err (fst (getSubmission assetUid sid' s)))) = next s"
    by (simp_all add: getSubmission_fail_def getSubmission_def Let_def)
  have quiet: "snd (componentDidUpdate props props (fst (getSubmission_fail t sid' err s))) = []"
    by (simp add: componentDidUpdate_def)
  have ex: "\<exists>m. submissionDataFetchError (fst (getSubmission_fail t sid' err s)) = IsString m
          \<and> fst (getSubmission_fail t sid' err s) =
               s\<lparr>submissionDataFetchError := IsString m, isFetchingSubmissionData := False\<rparr>"
    using stored exact by blast
  from none flag frame before quiet ex exact show ?thesis by (intro conjI)
qed

theorem getSubmission_fail_frame_witness:
  "fst (getSubmission_fail (\<lambda>m. m) ''42''
          \<lparr>responseText = None, statusText = Some ''Bad Gateway''\<rparr> sampleState) =
     sampleState\<lparr>submissionDataFetchError := IsString ''Bad Gateway'',
                 isFetchingSubmissionData := False\<rparr>
   \<and> snd (getSubmission_fail (\<lambda>m. m) ''42''
          \<lparr>responseText = None, statusText = Some ''Bad Gateway''\<rparr> sampleState) = []
   \<and> fst (getSubmission_fail (\<lambda>m. m) ''42''
          \<lparr>responseText = Some ''Server is busy'', statusText = None\<rparr> sampleState) =
     sampleState\<lparr>submissionDataFetchError := IsString ''Server is busy'',
                 isFetchingSubmissionData := False\<rparr>"
proof -
  have status: "fst (getSubmission_fail (\<lambda>m. m) ''42''
          \<lparr>responseText = None, statusText = Some ''Bad Gateway''\<rparr> sampleState) =
     sampleState\<lparr>submissionDataFetchError := IsString ''Bad Gateway'',
                 isFetchingSubmissionData := False\<rparr>
     \<and> snd (getSubmission_fail (\<lambda>m. m) ''42''
          \<lparr>responseText = None, statusText = Some ''Bad Gateway''\<rparr> sampleState) = []"
    using getSubmission_fail_frame
      [where t = "\<lambda>m. m" and sid' = "''42''"
         and err = "\<lparr>responseText = None, statusText = Some ''Bad Gateway''\<rparr>"
         and s = sampleState and assetUid = "''aTk9x''"
         and props = "sampleProps ''42'' [41, 42, 43] (samplePage 1)"]
    by (simp add: truthy_opt_string_def truthy_string_def)
  have body: "fst (getSubmission_fail (\<lambda>m. m) ''42''
          \<lparr>responseText = Some ''Server is busy'', statusText = None\<rparr> sampleState) =
     sampleState\<lparr>submissionDataFetchError := IsString ''Server is busy'',
                 isFetchingSubmissionData := False\<rparr>"
    using getSubmission_fail_frame
      [where t = "\<lambda>m. m" and sid' = "''42''"
         and err = "\<lparr>responseText = Some ''Server is busy'', statusText = None\<rparr>"
         and s = sampleState and assetUid = "''aTk9x''"
         and props = "sampleProps ''42'' [41, 42, 43] (samplePage 1)"]
    by (simp add: truthy_opt_string_def truthy_string_def DETAIL_NOT_FOUND_def)
  from status body show ?thesis by blast
qed

subsection \<open>Validation status\<close>

text \<open>
  C10. \<open>refreshSubmissionValidationStatus\<close> clears the pending flag. With no submission
  loaded, that is all it does. With a submission loaded, it replaces the validation
  status of that submission, by the result if the result has a non-empty uid and by the
  empty object otherwise, and changes nothing else, in the submission or in the state.
\<close>

theorem refreshSubmissionValidationStatus_frame:
  "(submission s = None \<longrightarrow>
      refreshSubmissionValidationStatus result s = s\<lparr>isValidationStatusChangePending := False\<rparr>)
   \<and> (\<forall>current. submission s = Some current \<longrightarrow>
        refreshSubmissionValidationStatus result s =
          s\<lparr>isValidationStatusChangePending := False,
            submission := Some (current\<lparr>validation_status :=
               (case result of
                  None \<Rightarrow> emptyObject
                | Some r \<Rightarrow> if truthy_opt_string (uid r) then r else emptyObject)\<rparr>)\<rparr>)"
  by (auto simp add: refreshSubmissionValidationStatus_def clonedeep_def Let_def split: option.splits)

theorem refreshSubmissionValidationStatus_frame_witness:
  "refreshSubmissionValidationStatus (Some sampleStatus) sampleState =
     sampleState\<lparr>isValidationStatusChangePending := False\<rparr>
   \<and> refreshSubmissionValidationStatus (Some sampleStatus)
        (sampleState\<lparr>submission := Some sampleSubmission, isValidationStatusChangePending := True\<rparr>) =
      sampleState\<lparr>isValidationStatusChangePending := False,
        submission := Some (sampleSubmission\<lparr>validation_status := sampleStatus\<rparr>)\<rparr>
   \<and> refreshSubmissionValidationStatus (Some emptyObject)
        (sampleState\<lparr>submission := Some (sampleSubmission\<lparr>validation_status := sampleStatus\<rparr>)\<rparr>) =
      sampleState\<lparr>isValidationStatusChangePending := False,
        submission := Some sampleSubmission\<rparr>"
  using
    refreshSubmissionValidationStatus_frame [of sampleState "Some sampleStatus"]
    refreshSubmissionValidationStatus_frame
      [of "sampleState\<lparr>submission := Some sampleSubmission, isValidationStatusChangePending := True\<rparr>"
          "Some sampleStatus"]
    refreshSubmissionValidationStatus_frame
      [of "sampleState\<lparr>submission := Some (sampleSubmission\<lparr>validation_status := sampleStatus\<rparr>)\<rparr>"
          "Some emptyObject"]
  by (simp add: sampleState_def constructor_def sampleStatus_def sampleSubmission_def emptyObject_def
        truthy_opt_string_def truthy_string_def Let_def)

subsection \<open>Price display\<close>

text \<open>
  C9. For every price whose \<open>unit_amount\<close> is 0, whatever its recurring interval and
  the quantity, \<open>useDisplayPrice\<close> returns the text for "Free": the same result as for
  a price without amount and as for no price at all.
\<close>

theorem useDisplayPrice_zero_is_free:
  "unit_amount p = Some 0 \<Longrightarrow>
     useDisplayPrice t adj (Some p) q = t ''Free''
     \<and> useDisplayPrice t adj (Some p) q = useDisplayPrice t adj (Some (p\<lparr>unit_amount := None\<rparr>)) q
     \<and> useDisplayPrice t adj (Some p) q = useDisplayPrice t adj None q"
  by (simp add: useDisplayPrice_def truthy_number_def)

theorem useDisplayPrice_zero_is_free_witness:
  "useDisplayPrice (\<lambda>m. m) (\<lambda>n tq. of_int n)
     (Some \<lparr>unit_amount = Some 0, recurring = Some \<lparr>interval = Some ''year''\<rparr>, transform_quantity = ()\<rparr>)
     (Some 5) = ''Free''"
proof -
  have "unit_amount \<lparr>unit_amount = Some 0, recurring = Some \<lparr>interval = Some ''year''\<rparr>,
          transform_quantity = ()\<rparr> = Some 0"
    by simp
  from useDisplayPrice_zero_is_free [OF this, of "\<lambda>m. m" "\<lambda>n tq. of_int n" "Some 5"]
  show ?thesis by blast
qed

text \<open>
  C3. \<open>useDisplayPrice\<close> is a function of the price and the quantity (given the
  translation and the quantity adjustment it imports) and always returns a text. Without
  a price or without an amount the text is "Free". For an amount of 1200, the default
  quantity and an adjustment factor of 1, the untranslated text is \<open>$12.00\<close> without
  recurring interval and \<open>$1.00 USD/month\<close> with a yearly one. In general, for a yearly
  price the amount is divided by 100 and by 12 and multiplied by the adjustment factor;
  below \<open>10^21\<close> the result is written with two decimals into the monthly template.
\<close>

theorem useDisplayPrice_contract:
  "useDisplayPrice t adj None q = t ''Free''
   \<and> (unit_amount p = None \<longrightarrow> useDisplayPrice t adj (Some p) q = t ''Free'')
   \<and> (unit_amount p = Some 1200 \<and> recurring_interval p = None
        \<and> adj 1 (transform_quantity p) = 1 \<and> t ''$##price##'' = ''$##price##'' \<longrightarrow>
        useDisplayPrice t adj (Some p) None = ''$12.00'')
   \<and> (unit_amount p = Some 1200 \<and> recurring_interval p = Some ''year''
        \<and> adj 1 (transform_quantity p) = 1
        \<and> t ''$##price## USD/month'' = ''$##price## USD/month'' \<longrightarrow>
        useDisplayPrice t adj (Some p) None = ''$1.00 USD/month'')
   \<and> (\<forall>amount. unit_amount p = Some amount \<and> amount \<noteq> 0 \<and> recurring_interval p = Some ''year'' \<longrightarrow>
        (let factor = adj (case q of None \<Rightarrow> 1 | Some n \<Rightarrow> n) (transform_quantity p);
             totalPrice = js_mul (js_div (js_div (of_int amount) 100) 12) factor
         in \<bar>totalPrice\<bar> < 10 ^ 21 \<longrightarrow>
            useDisplayPrice t adj (Some p) q =
              js_replace (t ''$##price## USD/month'') ''##price##'' (toFixed2 totalPrice)
            \<and> (t ''$##price## USD/month'' = ''$##price## USD/month'' \<longrightarrow>
                 useDisplayPrice t adj (Some p) q = ''$'' @ toFixed2 totalPrice @ '' USD/month'')
            \<and> (\<exists>w d1 d2. toFixed2 totalPrice = w @ [CHR ''.'', d1, d2])))"
proof -
  have free1: "useDisplayPrice t adj None q = t ''Free''"
    by (simp add: useDisplayPrice_def)
  have free2: "unit_amount p = None \<Longrightarrow> useDisplayPrice t adj (Some p) q = t ''Free''"
    by (simp add: useDisplayPrice_def)
  have once: "unit_amount p = Some 1200 \<Longrightarrow> recurring_interval p = None
        \<Longrightarrow> adj 1 (transform_quantity p) = 1 \<Longrightarrow> t ''$##price##'' = ''$##price##'' \<Longrightarrow>
        useDisplayPrice t adj (Some p) None = ''$12.00''"
    by (simp add: useDisplayPrice_def truthy_number_def truthy_opt_string_def
          js_div_1200 js_mul_12 toFixed2_12 js_replace_def)
  have yearly: "unit_amount p = Some 1200 \<Longrightarrow> recurring_interval p = Some ''year''
        \<Longrightarrow> adj 1 (transform_quantity p) = 1
        \<Longrightarrow> t ''$##price## USD/month'' = ''$##price## USD/month'' \<Longrightarrow>
        useDisplayPrice t adj (Some p) None = ''$1.00 USD/month''"
    by (simp add: useDisplayPrice_def truthy_number_def truthy_opt_string_def truthy_string_def
          js_div_1200 js_div_12 js_mul_1 toFixed2_1 js_replace_def)
  have general: "\<And>amount. unit_amount p = Some amount \<Longrightarrow> amount \<noteq> 0
        \<Longrightarrow> recurring_interval p = Some ''year'' \<Longrightarrow>
        useDisplayPrice t adj (Some p) q =
          js_replace (t ''$##price## USD/month'') ''##price##''
            (toFixed2 (js_mul (js_div (js_div (of_int amount) 100) 12)
               (adj (case q of None \<Rightarrow> 1 | Some n \<Rightarrow> n) (transform_quantity p))))"
    by (simp add: useDisplayPrice_def truthy_number_def truthy_opt_string_def truthy_string_def Let_def)
  show ?thesis
    using free1 free2 once yearly general
    by (auto simp add: Let_def js_replace_price_month toFixed2_no_dollar toFixed2_two_decimals
          simp del: of_int_eq_numeral_iff)
qed

theorem useDisplayPrice_contract_witness:
  "useDisplayPrice (\<lambda>m. m) (\<lambda>n tq. of_int n)
     (Some \<lparr>unit_amount = None, recurring = None, transform_quantity = ()\<rparr>) None = ''Free''
   \<and> useDisplayPrice (\<lambda>m. m) (\<lambda>n tq. of_int n)
     (Some \<lparr>unit_amount = Some 1200, recurring = None, transform_quantity = ()\<rparr>) None = ''$12.00''
   \<and> useDisplayPrice (\<lambda>m. m) (\<lambda>n tq. of_int n)
     (Some \<lparr>unit_amount = Some 1200, recurring = Some \<lparr>interval = Some ''year''\<rparr>,
            transform_quantity = ()\<rparr>) None = ''$1.00 USD/month''
   \<and> useDisplayPrice (\<lambda>m. m) (\<lambda>n tq. of_int n)
     (Some \<lparr>unit_amount = Some 18, recurring = Some \<lparr>interval = Some ''year''\<rparr>,
            transform_quantity = ()\<rparr>) (Some 3) = ''$0.04 USD/month''"
proof -
  let ?t = "\<lambda>m::string. m"
  let ?adj = "\<lambda>(n::int) (tq::unit). (of_int n :: rat)"
  have free: "useDisplayPrice ?t ?adj
     (Some \<lparr>unit_amount = None, recurring = None, transform_quantity = ()\<rparr>) None = ''Free''"
    using useDisplayPrice_contract
      [of ?t ?adj None "\<lparr>unit_amount = None, recurring = None, transform_quantity = ()\<rparr>"]
    by auto
  have once: "useDisplayPrice ?t ?adj
     (Some \<lparr>unit_amount = Some 1200, recurring = None, transform_quantity = ()\<rparr>) None = ''$12.00''"
    using useDisplayPrice_contract
      [of ?t ?adj None "\<lparr>unit_amount = Some 1200, recurring = None, transform_quantity = ()\<rparr>"]
    by (auto simp add: recurring_interval_def)
  have yearly: "useDisplayPrice ?t ?adj
     (Some \<lparr>unit_amount = Some 1200, recurring = Some \<lparr>interval = Some ''year''\<rparr>,
            transform_quantity = ()\<rparr>) None = ''$1.00 USD/month''"
    using useDisplayPrice_contract
      [of ?t ?adj None "\<lparr>unit_amount = Some 1200, recurring = Some \<lparr>interval = Some ''year''\<rparr>,
            transform_quantity = ()\<rparr>"]
    by (auto simp add: recurring_interval_def)
  have total: "js_mul (js_div (js_div 18 100) 12) 3 = 3242591731706757 / 72057594037927936"
    by code_simp
  have digits: "toFixed2 (3242591731706757 / 72057594037927936) = ''0.04''"
    by code_simp
  have general: "useDisplayPrice ?t ?adj
     (Some \<lparr>unit_amount = Some 18, recurring = Some \<lparr>interval = Some ''year''\<rparr>,
            transform_quantity = ()\<rparr>) (Some 3) = ''$0.04 USD/month''"
    using useDisplayPrice_contract
      [of ?t ?adj "Some 3" "\<lparr>unit_amount = Some 18, recurring = Some \<lparr>interval = Some ''year''\<rparr>,
            transform_quantity = ()\<rparr>"]
    by (auto simp add: recurring_interval_def total digits)
  from free once yearly general show ?thesis by blast
qed

subsection \<open>Previous and next\<close>

text \<open>
  C1 (as amended). Let the number that \<open>Number.parseInt\<close> reads from the requested sid
  occur in \<open>ids\<close>, first at index \<open>c\<close>, and let every identifier in \<open>ids\<close> be positive.
  Then after a successful fetch: \<open>previous\<close> is \<open>ids[c - 1]\<close> when \<open>c > 0\<close> and \<open>next\<close> is
  \<open>ids[c + 1]\<close> when \<open>c + 1 < ids.length\<close>; \<open>next\<close> is \<open>-2\<close> exactly when \<open>c\<close> is the last
  index and \<open>tableInfo\<close> is pagination data with
  \<open>resultsTotal > (currentPage + 1) * pageSize\<close>; \<open>previous\<close> is \<open>-2\<close> exactly when \<open>c = 0\<close>
  and \<open>tableInfo\<close> is pagination data with \<open>currentPage > 0\<close>; in the remaining cases the
  value is \<open>-1\<close>.
\<close>

theorem getSubmission_done_sentinels:
  assumes "parseInt sid' = Some n"
    and "c < length (ids props)" and "ids props ! c = n" and "\<forall>j<c. ids props ! j \<noteq> n"
    and "\<forall>k \<in> set (ids props). 0 < k"
  shows
    "(0 < c \<longrightarrow> previous (fst (getSubmission_done props sid' data s)) = ids props ! (c - 1))
     \<and> (c + 1 < length (ids props) \<longrightarrow>
          next (fst (getSubmission_done props sid' data s)) = ids props ! (c + 1))
     \<and> (next (fst (getSubmission_done props sid' data s)) = - 2 \<longleftrightarrow>
          c + 1 = length (ids props)
          \<and> (\<exists>ti. tableInfo props = TableInfoData ti
                 \<and> (currentPage ti + 1) * pageSize ti < resultsTotal ti))
     \<and> (previous (fst (getSubmission_done props sid' data s)) = - 2 \<longleftrightarrow>
          c = 0 \<and> (\<exists>ti. tableInfo props = TableInfoData ti \<and> 0 < currentPage ti))
     \<and> (c = 0 \<and> \<not> (\<exists>ti. tableInfo props = TableInfoData ti \<and> 0 < currentPage ti) \<longrightarrow>
          previous (fst (getSubmission_done props sid' data s)) = - 1)
     \<and> (c + 1 = length (ids props)
          \<and> \<not> (\<exists>ti. tableInfo props = TableInfoData ti
                   \<and> (currentPage ti + 1) * pageSize ti < resultsTotal ti) \<longrightarrow>
          next (fst (getSubmission_done props sid' data s)) = - 1)"
proof -
  let ?P = "\<exists>ti. tableInfo props = TableInfoData ti \<and> 0 < currentPage ti"
  let ?N = "\<exists>ti. tableInfo props = TableInfoData ti
                 \<and> (currentPage ti + 1) * pageSize ti < resultsTotal ti"
  have pn: "prevAndNext props sid' =
     ((if 0 < c then ids props ! (c - 1) else if ?P then - 2 else - 1),
      (if c + 1 < length (ids props) then ids props ! (c + 1) else if ?N then - 2 else - 1))"
    using assms by (rule prevAndNext_at)
  have prev: "previous (fst (getSubmission_done props sid' data s)) =
      (if 0 < c then ids props ! (c - 1) else if ?P then - 2 else - 1)"
    by (simp add: getSubmission_done_def pn)
  have nxt: "next (fst (getSubmission_done props sid' data s)) =
      (if c + 1 < length (ids props) then ids props ! (c + 1) else if ?N then - 2 else - 1)"
    by (simp add: getSubmission_done_def pn)
  have pos: "\<And>i. i < length (ids props) \<Longrightarrow> 0 < ids props ! i"
    using assms(5) by simp
  have p1: "0 < c \<Longrightarrow> ids props ! (c - 1) \<noteq> - 2"
  proof -
    assume "0 < c"
    with assms(2) have "c - 1 < length (ids props)" by simp
    then have "0 < ids props ! (c - 1)" by (rule pos)
    then show ?thesis by simp
  qed
  have p2: "c + 1 < length (ids props) \<Longrightarrow> ids props ! (c + 1) \<noteq> - 2"
  proof -
    assume "c + 1 < length (ids props)"
    then have "0 < ids props ! (c + 1)" by (rule pos)
    then show ?thesis by simp
  qed
  have last: "\<not> c + 1 < length (ids props) \<longleftrightarrow> c + 1 = length (ids props)"
    using assms(2) by auto
  show ?thesis
    unfolding prev nxt using p1 p2 last by auto
qed

theorem getSubmission_done_sentinels_witness:
  "previous (fst (getSubmission_done (sampleProps ''42'' [41, 42, 43] (samplePage 1)) ''42''
      sampleSubmission sampleState)) = 41
   \<and> next (fst (getSubmission_done (sampleProps ''42'' [41, 42, 43] (samplePage 1)) ''42''
      sampleSubmission sampleState)) = 43
   \<and> next (fst (getSubmission_done (sampleProps ''43'' [41, 42, 43] (samplePage 1)) ''43''
      sampleSubmission sampleState)) = - 2
   \<and> previous (fst (getSubmission_done (sampleProps ''41'' [41, 42, 43] (samplePage 1)) ''41''
      sampleSubmission sampleState)) = - 2
   \<and> previous (fst (getSubmission_done (sampleProps ''41'' [41, 42, 43] (samplePage 0)) ''41''
      sampleSubmission sampleState)) = - 1
   \<and> next (fst (getSubmission_done (sampleProps ''43'' [41, 42, 43] (TableInfoBoolean False)) ''43''
      sampleSubmission sampleState)) = - 1"
proof -
  have before: "\<forall>j<2. [41, 42, 43] ! j \<noteq> (43::int)"
    by (auto simp: less_Suc_eq numeral_2_eq_2)
  have mid: "previous (fst (getSubmission_done (sampleProps ''42'' [41, 42, 43] (samplePage 1)) ''42''
        sampleSubmission sampleState)) = 41
     \<and> next (fst (getSubmission_done (sampleProps ''42'' [41, 42, 43] (samplePage 1)) ''42''
        sampleSubmission sampleState)) = 43"
    using getSubmission_done_sentinels
      [of "''42''" 42 1 "sampleProps ''42'' [41, 42, 43] (samplePage 1)" sampleSubmission sampleState]
    by (simp add: parseInt_42 sampleProps_def)
  have last: "next (fst (getSubmission_done (sampleProps ''43'' [41, 42, 43] (samplePage 1)) ''43''
        sampleSubmission sampleState)) = - 2"
    using getSubmission_done_sentinels
      [of "''43''" 43 2 "sampleProps ''43'' [41, 42, 43] (samplePage 1)" sampleSubmission sampleState]
    by (simp add: parseInt_43 sampleProps_def samplePage_def before)
  have first: "previous (fst (getSubmission_done (sampleProps ''41'' [41, 42, 43] (samplePage 1)) ''41''
        sampleSubmission sampleState)) = - 2"
    using getSubmission_done_sentinels
      [of "''41''" 41 0 "sampleProps ''41'' [41, 42, 43] (samplePage 1)" sampleSubmission sampleState]
    by (simp add: parseInt_41 sampleProps_def samplePage_def)
  have first0: "previous (fst (getSubmission_done (sampleProps ''41'' [41, 42, 43] (samplePage 0)) ''41''
        sampleSubmission sampleState)) = - 1"
    using getSubmission_done_sentinels
      [of "''41''" 41 0 "sampleProps ''41'' [41, 42, 43] (samplePage 0)" sampleSubmission sampleState]
    by (simp add: parseInt_41 sampleProps_def samplePage_def)
  have lastb: "next (fst (getSubmission_done (sampleProps ''43'' [41, 42, 43] (TableInfoBoolean False)) ''43''
        sampleSubmission sampleState)) = - 1"
    using getSubmission_done_sentinels
      [of "''43''" 43 2 "sampleProps ''43'' [41, 42, 43] (TableInfoBoolean False)" sampleSubmission sampleState]
    by (simp add: parseInt_43 sampleProps_def before)
  from mid last first first0 lastb show ?thesis by blast
qed


text \<open>
  C1 as stated, for every list and every sid, fails. The sid 50 does not occur in
  \<open>[41, 42, 43]\<close>, so it has no sibling there, yet \<open>next\<close> is 41 and not \<open>-1\<close>. With an
  empty list and a further page available, \<open>next\<close> is \<open>-2\<close> although the current id is
  not the last element of the list. In \<open>[0, 42]\<close> the sid 42 has the identifier 0 before
  it, yet \<open>previous\<close> is \<open>-1\<close>.
\<close>

theorem getSubmission_done_sentinels_counterexample:
  "parseInt ''50'' = Some 50 \<and> (50::int) \<notin> set [41, 42, 43]
   \<and> next (fst (getSubmission_done (sampleProps ''50'' [41, 42, 43] (TableInfoBoolean False)) ''50''
        sampleSubmission sampleState)) = 41
   \<and> next (fst (getSubmission_done (sampleProps ''50'' [] (samplePage 0)) ''50''
        sampleSubmission sampleState)) = - 2
   \<and> parseInt ''42'' = Some 42 \<and> [0, 42] ! 1 = (42::int) \<and> [0, 42] ! 0 = (0::int)
   \<and> previous (fst (getSubmission_done (sampleProps ''42'' [0, 42] (TableInfoBoolean False)) ''42''
        sampleSubmission sampleState)) = - 1"
  by (simp add: parseInt_50 parseInt_42 getSubmission_done_def prevAndNext_def sampleProps_def
        samplePage_def truthy_string_def truthy_element_def element_def truthy_number_def Let_def)

text \<open>
  C8. Let \<open>ids\<close> be non-empty and let the requested sid be a non-empty text that occurs
  nowhere in \<open>ids\<close>, so that \<open>findIndex\<close> returns \<open>-1\<close>. Then after a successful fetch
  \<open>next\<close> is the first element \<open>ids[0]\<close> if that is not zero (and \<open>-1\<close> if it is), and
  \<open>previous\<close> is \<open>-2\<close> when \<open>tableInfo\<close> is pagination data with \<open>currentPage > 0\<close> and
  \<open>-1\<close> otherwise.
\<close>

theorem getSubmission_done_sid_absent:
  assumes "truthy_string sid'"
    and "\<forall>k \<in> set (ids props). Some k \<noteq> parseInt sid'"
    and "ids props \<noteq> []"
  shows "findIndex (\<lambda>k. Some k = parseInt sid') (ids props) = - 1
     \<and> next (fst (getSubmission_done props sid' data s)) =
         (if truthy_number (ids props ! 0) then ids props ! 0 else - 1)
     \<and> previous (fst (getSubmission_done props sid' data s)) =
         (if \<exists>ti. tableInfo props = TableInfoData ti \<and> 0 < currentPage ti then - 2 else - 1)"
proof -
  have fi: "findIndex (\<lambda>k. Some k = parseInt sid') (ids props) = - 1"
    using assms(2) by (simp add: findIndex_none)
  have hd: "hd (ids props) = ids props ! 0"
    using assms(3) by (simp add: hd_conv_nth)
  show ?thesis
    using prevAndNext_absent [OF assms(1) fi assms(3)] fi
    by (simp add: getSubmission_done_def hd)
qed

theorem getSubmission_done_sid_absent_witness:
  "next (fst (getSubmission_done (sampleProps ''50'' [41, 42, 43] (samplePage 1)) ''50''
            sampleSubmission sampleState)) = 41
   \<and> previous (fst (getSubmission_done (sampleProps ''50'' [41, 42, 43] (samplePage 1)) ''50''
            sampleSubmission sampleState)) = - 2
   \<and> previous (fst (getSubmission_done (sampleProps ''50'' [41, 42, 43] (samplePage 0)) ''50''
            sampleSubmission sampleState)) = - 1
   \<and> next (fst (getSubmission_done (sampleProps ''x'' [0, 42] (TableInfoBoolean False)) ''x''
            sampleSubmission sampleState)) = - 1"
proof -
  have p50: "parseInt ''50'' = Some 50"
    by (simp add: parseInt_def digitsToInt_def digitValue_def isWhiteSpace_def)
  have px: "parseInt ''x'' = None"
    by (simp add: parseInt_def digitsToInt_def digitValue_def isWhiteSpace_def)
  have a: "next (fst (getSubmission_done (sampleProps ''50'' [41, 42, 43] (samplePage 1)) ''50''
            sampleSubmission sampleState)) = 41
     \<and> previous (fst (getSubmission_done (sampleProps ''50'' [41, 42, 43] (samplePage 1)) ''50''
            sampleSubmission sampleState)) = - 2"
    using getSubmission_done_sid_absent
      [of "''50''" "sampleProps ''50'' [41, 42, 43] (samplePage 1)" sampleSubmission sampleState]
    by (simp add: p50 sampleProps_def samplePage_def truthy_string_def truthy_number_def)
  have b: "previous (fst (getSubmission_done (sampleProps ''50'' [41, 42, 43] (samplePage 0)) ''50''
            sampleSubmission sampleState)) = - 1"
    using getSubmission_done_sid_absent
      [of "''50''" "sampleProps ''50'' [41, 42, 43] (samplePage 0)" sampleSubmission sampleState]
    by (simp add: p50 sampleProps_def samplePage_def truthy_string_def truthy_number_def)
  have c: "next (fst (getSubmission_done (sampleProps ''x'' [0, 42] (TableInfoBoolean False)) ''x''
            sampleSubmission sampleState)) = - 1"
    using getSubmission_done_sid_absent
      [of "''x''" "sampleProps ''x'' [0, 42] (TableInfoBoolean False)" sampleSubmission sampleState]
    by (simp add: px sampleProps_def truthy_string_def truthy_number_def)
  from a b c show ?thesis by blast
qed


subsection \<open>Navigation and refresh\<close>

text \<open>
  C7. Each navigation action (\<open>switchSubmission\<close>, \<open>switchSubmissionFromOtherTablePage\<close>,
  and the Previous and Next buttons that call them) and the refresh action
  (\<open>triggerRefresh\<close>) sets \<open>isFetchingSubmissionData\<close>. The refresh action requests the
  submission of the current sid from the back end itself. A navigation action sends a
  \<open>showModal\<close> request that names the target; the modal reopened for that request is
  fetching and has requested the target's record from the back end, and so has a modal
  whose sid property changed. The request is sent whatever the state holds, and the
  record shown afterwards is the one the back end returned: nothing is served from
  records seen before.
\<close>

theorem navigation_and_refresh_reload:
  "isFetchingSubmissionData (fst (switchSubmission n props s))
   \<and> snd (switchSubmission n props s) =
       [PageState_showModal (SubmissionModalParams n (asset props) (ids props) (tableInfo props))]
   \<and> isFetchingSubmissionData
        (fst (pageState_showModal t tablePage
           (SubmissionModalParams n (asset props) (ids props) (tableInfo props))))
   \<and> snd (pageState_showModal t tablePage
           (SubmissionModalParams n (asset props) (ids props) (tableInfo props))) =
       [DataInterface_getSubmission (asset_uid (asset props)) (numberToString n)]
   \<and> isFetchingSubmissionData (fst (switchSubmissionFromOtherTablePage page s))
   \<and> snd (switchSubmissionFromOtherTablePage page s) = [PageState_showModal (SubmissionPageParams page)]
   \<and> isFetchingSubmissionData (fst (pageState_showModal t tablePage (SubmissionPageParams page)))
   \<and> snd (pageState_showModal t tablePage (SubmissionPageParams page)) =
       [DataInterface_getSubmission (asset_uid (asset (tablePage page)))
          (SubmissionModalProps.sid (tablePage page))]
   \<and> isFetchingSubmissionData (fst (triggerRefresh props s))
   \<and> snd (triggerRefresh props s) =
       [DataInterface_getSubmission (asset_uid (asset props)) (SubmissionModalProps.sid props),
        Actions_refreshTableSubmissions]
   \<and> isFetchingSubmissionData (fst (onPreviousClick props s))
   \<and> snd (onPreviousClick props s) =
       [PageState_showModal
          (if previous s = - 2 then SubmissionPageParams PagePrev
           else SubmissionModalParams (previous s) (asset props) (ids props) (tableInfo props))]
   \<and> isFetchingSubmissionData (fst (onNextClick props s))
   \<and> snd (onNextClick props s) =
       [PageState_showModal
          (if next s = - 2 then SubmissionPageParams PageNext
           else SubmissionModalParams (next s) (asset props) (ids props) (tableInfo props))]
   \<and> (SubmissionModalProps.sid props' \<noteq> SubmissionModalProps.sid props \<longrightarrow>
        isFetchingSubmissionData (fst (componentDidUpdate props props' s))
        \<and> snd (componentDidUpdate props props' s) =
            [DataInterface_getSubmission (asset_uid (asset props')) (SubmissionModalProps.sid props')])
   \<and> snd (getSubmission assetUid sid' s) = [DataInterface_getSubmission assetUid sid']
   \<and> submission (fst (getSubmission_done props sid' data s)) = Some data
   \<and> \<not> isFetchingSubmissionData (fst (getSubmission_done props sid' data s))"
  by (simp add: switchSubmission_def switchSubmissionFromOtherTablePage_def triggerRefresh_def
        onPreviousClick_def onNextClick_def componentDidUpdate_def getSubmission_def
        getSubmission_done_def pageState_showModal_def mount_def componentDidMount_def
        constructor_def tableInfo_or_false Let_def split_beta)



theorem navigation_and_refresh_reload_witness:
  "snd (componentDidUpdate (sampleProps ''42'' [41, 42, 43] (samplePage 1))
          (sampleProps ''43'' [41, 42, 43] (samplePage 1)) sampleState) =
     [DataInterface_getSubmission ''aTk9x'' ''43'']
   \<and> snd (switchSubmission 43 (sampleProps ''42'' [41, 42, 43] (samplePage 1)) sampleState) =
     [PageState_showModal (SubmissionModalParams 43 sampleAsset [41, 42, 43] (samplePage 1))]
   \<and> snd (pageState_showModal (\<lambda>m. m) (\<lambda>page. sampleProps ''44'' [44, 45] (samplePage 2))
          (SubmissionModalParams 43 sampleAsset [41, 42, 43] (samplePage 1))) =
     [DataInterface_getSubmission ''aTk9x'' ''43'']
   \<and> snd (pageState_showModal (\<lambda>m. m) (\<lambda>page. sampleProps ''44'' [44, 45] (samplePage 2))
          (SubmissionPageParams PageNext)) =
     [DataInterface_getSubmission ''aTk9x'' ''44'']"
  using navigation_and_refresh_reload
    [where n = 43 and props = "sampleProps ''42'' [41, 42, 43] (samplePage 1)"
       and props' = "sampleProps ''43'' [41, 42, 43] (samplePage 1)"
       and s = sampleState and page = PageNext
       and tablePage = "\<lambda>page. sampleProps ''44'' [44, 45] (samplePage 2)"
       and t = "\<lambda>m. m"]
  by (simp add: sampleProps_def sampleAsset_def numberToString_43)

subsection \<open>Unsaved work in the analysis tab\<close>

text \<open>
  C2. In the state of the analysis reducer, \<open>hasUnsavedWork\<close> is false after the
  initialising \<open>setQuestions\<close> action (so also after \<open>setupQuestions\<close>) and after a "mark
  saved" action, and true after an edit that gives a question a response different from
  its last saved value; in every state reached from the initial one it says exactly
  whether some response differs from its last saved value. The component forwards the
  flag to the page-level store after the first render and after every render in which it
  changed, so that after any run of actions the store holds the current flag.
\<close>

theorem hasUnsavedWork_reflects_unsaved:
  "\<not> hasUnsavedWork (analysisQuestionsReducer s (setQuestions qs))
   \<and> \<not> hasUnsavedWork (state (setupQuestions qs url fetched applyUpdate initialTab))
   \<and> \<not> hasUnsavedWork (analysisQuestionsReducer s markSaved)
   \<and> (\<forall>q \<in> set (questions s). question_uuid q = u \<and> v \<noteq> lastSaved q \<longrightarrow>
        hasUnsavedWork (analysisQuestionsReducer s (updateResponse u v)))
   \<and> hasUnsavedWork (foldl analysisQuestionsReducer initialState actions) =
       (\<exists>q \<in> set (questions (foldl analysisQuestionsReducer initialState actions)).
          response q \<noteq> lastSaved q)
   \<and> analysisTabHasUnsavedChanges (hasUnsavedWorkEffect None tab store) = hasUnsavedWork (state tab)
   \<and> (prevDep \<noteq> Some (hasUnsavedWork (state tab)) \<longrightarrow>
        analysisTabHasUnsavedChanges (hasUnsavedWorkEffect prevDep tab store) = hasUnsavedWork (state tab))
   \<and> analysisTabHasUnsavedChanges (renders None (tabStates initialTab actions) store) =
       hasUnsavedWork (foldl analysisQuestionsReducer initialState actions)"
proof -
  have init: "\<not> hasUnsavedWork (analysisQuestionsReducer s (setQuestions qs))" for s qs
    by (simp add: recompute_flag)
  have loaded: "\<not> hasUnsavedWork (state (setupQuestions qs url fetched applyUpdate initialTab))"
    using init
    by (auto simp add: setupQuestions_def dispatch_def initialTab_def initialState_def Let_def
          split: sum.splits)
  have saved: "\<not> hasUnsavedWork (analysisQuestionsReducer s markSaved)"
    by (simp add: recompute_flag)
  have edit: "\<forall>q \<in> set (questions s). question_uuid q = u \<and> v \<noteq> lastSaved q \<longrightarrow>
        hasUnsavedWork (analysisQuestionsReducer s (updateResponse u v))"
  proof (intro ballI impI)
    fix q assume q: "q \<in> set (questions s)" and h: "question_uuid q = u \<and> v \<noteq> lastSaved q"
    let ?q' = "q\<lparr>response := v\<rparr>"
    have "?q' \<in> set (map (\<lambda>q. if question_uuid q = u then q\<lparr>response := v\<rparr> else q) (questions s))"
      using q h by force
    moreover have "response ?q' \<noteq> lastSaved ?q'" using h by simp
    ultimately show "hasUnsavedWork (analysisQuestionsReducer s (updateResponse u v))"
      unfolding analysisQuestionsReducer.simps recompute_flag by blast
  qed
  have first: "analysisTabHasUnsavedChanges (hasUnsavedWorkEffect None tab store) = hasUnsavedWork (state tab)"
    by (simp add: hasUnsavedWorkEffect_def setAnalysisTabHasUnsavedChanges_def)
  have change: "prevDep \<noteq> Some (hasUnsavedWork (state tab)) \<longrightarrow>
        analysisTabHasUnsavedChanges (hasUnsavedWorkEffect prevDep tab store) = hasUnsavedWork (state tab)"
    by (simp add: hasUnsavedWorkEffect_def setAnalysisTabHasUnsavedChanges_def)
  have run: "analysisTabHasUnsavedChanges (renders None (tabStates initialTab actions) store) =
       hasUnsavedWork (foldl analysisQuestionsReducer initialState actions)"
    using renders_last [of None store "tabStates initialTab actions"]
    by (simp add: tabStates_nonempty tabStates_last dispatch_state initialTab_def)
  from init loaded saved edit reachable_flag first change run show ?thesis by blast
qed



theorem hasUnsavedWork_reflects_unsaved_witness:
  "\<not> hasUnsavedWork (analysisQuestionsReducer initialState (setQuestions [sampleQuestion]))
   \<and> hasUnsavedWork
        (analysisQuestionsReducer (analysisQuestionsReducer initialState (setQuestions [sampleQuestion]))
           (updateResponse ''q1'' (Some ''likes tea'')))
   \<and> analysisTabHasUnsavedChanges
        (renders None
           (tabStates initialTab [setQuestions [sampleQuestion], updateResponse ''q1'' (Some ''likes tea'')])
           \<lparr>analysisTabHasUnsavedChanges = False\<rparr>)
   \<and> \<not> analysisTabHasUnsavedChanges
        (renders None
           (tabStates initialTab
              [setQuestions [sampleQuestion], updateResponse ''q1'' (Some ''likes tea''), markSaved])
           \<lparr>analysisTabHasUnsavedChanges = True\<rparr>)"
proof -
  let ?s = "analysisQuestionsReducer initialState (setQuestions [sampleQuestion])"
  have member: "sampleQuestion\<lparr>lastSaved := response sampleQuestion\<rparr> \<in> set (questions ?s)"
    by (simp add: recompute_def)
  have a: "\<not> hasUnsavedWork ?s"
    using hasUnsavedWork_reflects_unsaved [where s = initialState and qs = "[sampleQuestion]"]
    by blast
  have b: "hasUnsavedWork (analysisQuestionsReducer ?s (updateResponse ''q1'' (Some ''likes tea'')))"
  proof -
    have "\<forall>q \<in> set (questions ?s). question_uuid q = ''q1'' \<and> Some ''likes tea'' \<noteq> lastSaved q \<longrightarrow>
        hasUnsavedWork (analysisQuestionsReducer ?s (updateResponse ''q1'' (Some ''likes tea'')))"
      using hasUnsavedWork_reflects_unsaved
        [where s = ?s and u = "''q1''" and v = "Some ''likes tea''" and actions = "[]"
           and qs = "[]" and tab = initialTab and prevDep = None
           and store = "\<lparr>analysisTabHasUnsavedChanges = False\<rparr>"
           and url = None and fetched = "Inr ()" and applyUpdate = "\<lambda>r qs. qs"]
      by blast
    then have "question_uuid (sampleQuestion\<lparr>lastSaved := response sampleQuestion\<rparr>) = ''q1''
        \<and> Some ''likes tea'' \<noteq> lastSaved (sampleQuestion\<lparr>lastSaved := response sampleQuestion\<rparr>) \<longrightarrow>
        hasUnsavedWork (analysisQuestionsReducer ?s (updateResponse ''q1'' (Some ''likes tea'')))"
      using member by (rule bspec)
    then show ?thesis by (simp add: sampleQuestion_def)
  qed
  let ?edited = "analysisQuestionsReducer ?s (updateResponse ''q1'' (Some ''likes tea''))"
  let ?two = "[setQuestions [sampleQuestion], updateResponse ''q1'' (Some ''likes tea'')]"
  let ?three = "[setQuestions [sampleQuestion], updateResponse ''q1'' (Some ''likes tea''), markSaved]"
  have c: "analysisTabHasUnsavedChanges
        (renders None (tabStates initialTab ?two) \<lparr>analysisTabHasUnsavedChanges = False\<rparr>)"
  proof -
    have "analysisTabHasUnsavedChanges
        (renders None (tabStates initialTab ?two) \<lparr>analysisTabHasUnsavedChanges = False\<rparr>) =
        hasUnsavedWork (foldl analysisQuestionsReducer initialState ?two)"
      using hasUnsavedWork_reflects_unsaved
        [where s = ?s and u = "''q1''" and v = "Some ''likes tea''" and actions = ?two
           and qs = "[]" and tab = initialTab and prevDep = None
           and store = "\<lparr>analysisTabHasUnsavedChanges = False\<rparr>"
           and url = None and fetched = "Inr ()" and applyUpdate = "\<lambda>r qs. qs"]
      by blast
    moreover have "foldl analysisQuestionsReducer initialState ?two = ?edited"
      by simp
    ultimately show ?thesis using b by simp
  qed
  have d: "\<not> analysisTabHasUnsavedChanges
        (renders None (tabStates initialTab ?three) \<lparr>analysisTabHasUnsavedChanges = True\<rparr>)"
  proof -
    have inst: "\<not> hasUnsavedWork (analysisQuestionsReducer ?edited markSaved)
        \<and> analysisTabHasUnsavedChanges
        (renders None (tabStates initialTab ?three) \<lparr>analysisTabHasUnsavedChanges = True\<rparr>) =
        hasUnsavedWork (foldl analysisQuestionsReducer initialState ?three)"
      using hasUnsavedWork_reflects_unsaved
        [where s = ?edited and u = "''q1''" and v = "Some ''likes tea''" and actions = ?three
           and qs = "[]" and tab = initialTab and prevDep = None
           and store = "\<lparr>analysisTabHasUnsavedChanges = True\<rparr>"
           and url = None and fetched = "Inr ()" and applyUpdate = "\<lambda>r qs. qs"]
      by blast
    moreover have "foldl analysisQuestionsReducer initialState ?three
        = analysisQuestionsReducer ?edited markSaved"
      by simp
    ultimately show ?thesis by simp
  qed
  from a b c d show ?thesis by blast
qed

end
